theory Spec2Isabelle
  imports Complex_Main "HOL-Library.Log_Nat"
begin

section \<open>Python values used by the auction cog\<close>

text \<open>
  The development embeds \<^verbatim>\<open>cogs/auctionpannel.py\<close>. Strings are byte strings
  restricted to ASCII; Python integers are \<^typ>\<open>int\<close>; Python floats are IEEE binary64
  values, represented by the rational they denote, with the two infinities and NaN added.
  Exceptions that the source can raise are values of \<open>exn\<close>.
\<close>

datatype exn = ValueError | OverflowError | TypeError | KeyError

datatype pyfloat = Fin rat | Inf bool | NaN

subsection \<open>String primitives\<close>

text \<open>\<^verbatim>\<open>str.lower\<close> on ASCII: only \<^verbatim>\<open>A\<close>..\<^verbatim>\<open>Z\<close> change.\<close>

definition lower_char :: "char \<Rightarrow> char" where
  "lower_char c =
     (case map_of (zip ''ABCDEFGHIJKLMNOPQRSTUVWXYZ'' ''abcdefghijklmnopqrstuvwxyz'') c of
        None \<Rightarrow> c
      | Some d \<Rightarrow> d)"

definition lower :: "string \<Rightarrow> string" where
  "lower s = map lower_char s"

text \<open>\<^verbatim>\<open>s.replace(c, "")\<close> for a one-character pattern: every occurrence goes.\<close>

definition remove_char :: "char \<Rightarrow> string \<Rightarrow> string" where
  "remove_char c s = filter (\<lambda>d. d \<noteq> c) s"

text \<open>
  ASCII whitespace as \<^verbatim>\<open>str.isspace\<close> sees it: tab, line feed, vertical tab, form feed,
  carriage return, the four separators 0x1c..0x1f, and space.
\<close>

definition is_space :: "char \<Rightarrow> bool" where
  "is_space c \<longleftrightarrow>
     c \<in> set [CHR 0x09, CHR 0x0A, CHR 0x0B, CHR 0x0C, CHR 0x0D,
               CHR 0x1C, CHR 0x1D, CHR 0x1E, CHR 0x1F, CHR 0x20]"

definition strip :: "string \<Rightarrow> string" where
  "strip s = rev (dropWhile is_space (rev (dropWhile is_space s)))"

definition endswith :: "string \<Rightarrow> char \<Rightarrow> bool" where
  "endswith s c \<longleftrightarrow> s \<noteq> [] \<and> last s = c"

subsection \<open>Decimal digits\<close>

definition digit_val :: "char \<Rightarrow> int option" where
  "digit_val c = map_of (zip ''0123456789'' [0, 1, 2, 3, 4, 5, 6, 7, 8, 9]) c"

definition is_digit :: "char \<Rightarrow> bool" where
  "is_digit c \<longleftrightarrow> digit_val c \<noteq> None"

definition digits_val :: "string \<Rightarrow> int" where
  "digits_val ds = foldl (\<lambda>a c. 10 * a + (case digit_val c of None \<Rightarrow> 0 | Some d \<Rightarrow> d)) 0 ds"

text \<open>An optional sign in front of a literal: the flag says whether it is negative.\<close>

fun split_sign :: "string \<Rightarrow> bool \<times> string" where
  "split_sign [] = (False, [])"
| "split_sign (c # cs) =
     (if c = CHR ''-'' then (True, cs)
      else if c = CHR ''+'' then (False, cs)
      else (False, c # cs))"

subsection \<open>\<^verbatim>\<open>int(str)\<close>\<close>

text \<open>
  \<^verbatim>\<open>int(s)\<close> in base ten: surrounding whitespace is ignored, then an optional sign and at
  least one digit; anything else raises \<^verbatim>\<open>ValueError\<close>. (Underscores between digits, which
  Python also allows, never reach this function: the caller has removed them all.)
\<close>

definition py_int :: "string \<Rightarrow> exn + int" where
  "py_int s =
     (let (neg, ds) = split_sign (strip s) in
      if ds \<noteq> [] \<and> list_all is_digit ds
      then Inr (if neg then - digits_val ds else digits_val ds)
      else Inl ValueError)"

subsection \<open>Binary64 rounding\<close>

text \<open>Round to the nearest integer, ties to the even one.\<close>

definition round_half_even :: "rat \<Rightarrow> int" where
  "round_half_even x =
     (let f = \<lfloor>x\<rfloor>; d = x - of_int f in
      if d < 1 / 2 then f
      else if 1 / 2 < d then f + 1
      else if even f then f else f + 1)"

text \<open>Integer powers of two as rationals.\<close>

definition pow2 :: "int \<Rightarrow> rat" where
  "pow2 e = 2 powi e"

text \<open>For \<open>x > 0\<close>, the exponent \<open>e\<close> with \<open>2^e \<le> x < 2^(e+1)\<close>.\<close>

definition floor_log2 :: "rat \<Rightarrow> int" where
  "floor_log2 x =
     (let (n, d) = quotient_of x; k = bitlen n - bitlen d in
      if pow2 k \<le> x then k else k - 1)"

text \<open>
  The binary64 value nearest to a positive rational: 53 significant bits, exponents from
  -1022 (below that the spacing stays at \<open>2^-1074\<close>, the subnormal range) to 1023; a result of
  \<open>2^1024\<close> or more is an overflow, reported as \<open>None\<close>.
\<close>

definition round_pos :: "rat \<Rightarrow> rat option" where
  "round_pos x =
     (let e = max (floor_log2 x) (- 1022);
          q = pow2 (e - 52);
          y = of_int (round_half_even (x / q)) * q
      in if y < pow2 1024 then Some y else None)"

definition round_double :: "rat \<Rightarrow> pyfloat" where
  "round_double x =
     (if x = 0 then Fin 0
      else if 0 < x then (case round_pos x of None \<Rightarrow> Inf False | Some y \<Rightarrow> Fin y)
      else (case round_pos (- x) of None \<Rightarrow> Inf True | Some y \<Rightarrow> Fin (- y)))"

subsection \<open>Float operations\<close>

text \<open>
  \<^verbatim>\<open>float(n)\<close> for an integer, as done implicitly by \<^verbatim>\<open>int * float\<close>: correctly rounded, and
  \<^verbatim>\<open>OverflowError\<close> when the integer is too large for a float.
\<close>

definition float_of_int :: "int \<Rightarrow> exn + pyfloat" where
  "float_of_int n =
     (case round_double (of_int n) of
        Inf _ \<Rightarrow> Inl OverflowError
      | f \<Rightarrow> Inr f)"

text \<open>Float multiplication: the exact product, rounded; an overflow gives an infinity.\<close>

fun float_mul :: "pyfloat \<Rightarrow> pyfloat \<Rightarrow> pyfloat" where
  "float_mul (Fin a) (Fin b) = round_double (a * b)"
| "float_mul NaN _ = NaN"
| "float_mul _ NaN = NaN"
| "float_mul (Inf s) (Inf t) = Inf (s \<noteq> t)"
| "float_mul (Inf s) (Fin b) = (if b = 0 then NaN else Inf (s \<noteq> (b < 0)))"
| "float_mul (Fin a) (Inf t) = (if a = 0 then NaN else Inf ((a < 0) \<noteq> t))"

text \<open>
  \<^verbatim>\<open>int(x)\<close> for a float: truncation toward zero; an infinity raises \<^verbatim>\<open>OverflowError\<close>,
  NaN raises \<^verbatim>\<open>ValueError\<close>.
\<close>

definition trunc :: "rat \<Rightarrow> int" where
  "trunc x = (if 0 \<le> x then \<lfloor>x\<rfloor> else - \<lfloor>- x\<rfloor>)"

fun int_of_float :: "pyfloat \<Rightarrow> exn + int" where
  "int_of_float (Fin x) = Inr (trunc x)"
| "int_of_float (Inf _) = Inl OverflowError"
| "int_of_float NaN = Inl ValueError"

subsection \<open>\<^verbatim>\<open>float(str)\<close>\<close>

text \<open>
  The exponent part of a float literal: empty, or \<^verbatim>\<open>e\<close>, an optional sign and at least one
  digit. \<open>None\<close> is a syntax error.
\<close>

definition parse_exponent :: "string \<Rightarrow> int option" where
  "parse_exponent s =
     (case s of
        [] \<Rightarrow> Some 0
      | c # cs \<Rightarrow>
          if c = CHR ''e'' then
            (let (neg, ds) = split_sign cs in
             if ds \<noteq> [] \<and> list_all is_digit ds
             then Some (if neg then - digits_val ds else digits_val ds)
             else None)
          else None)"

text \<open>
  An unsigned decimal literal \<^verbatim>\<open>digits [. digits] [exponent]\<close> with at least one digit in
  the mantissa; the result is its exact value.
\<close>

definition parse_decimal :: "string \<Rightarrow> rat option" where
  "parse_decimal s =
     (let ip = takeWhile is_digit s;
          r1 = dropWhile is_digit s;
          (fp, r2) = (case r1 of
                        [] \<Rightarrow> ([], [])
                      | c # cs \<Rightarrow> if c = CHR ''.''
                                  then (takeWhile is_digit cs, dropWhile is_digit cs)
                                  else ([], r1))
      in if ip = [] \<and> fp = [] then None
         else (case parse_exponent r2 of
                 None \<Rightarrow> None
               | Some ex \<Rightarrow>
                   Some (of_int (digits_val (ip @ fp)) *
                         (let k = ex - int (length fp)
                          in if 0 \<le> k then 10 ^ nat k else 1 / 10 ^ nat (- k)))))"

text \<open>
  \<^verbatim>\<open>float(s)\<close>: surrounding whitespace is ignored and letters are case-insensitive; after an
  optional sign come \<^verbatim>\<open>inf\<close>, \<^verbatim>\<open>infinity\<close>, \<^verbatim>\<open>nan\<close> or a decimal literal, which is rounded
  to the nearest binary64 value. Anything else raises \<^verbatim>\<open>ValueError\<close>.
\<close>

definition py_float :: "string \<Rightarrow> exn + pyfloat" where
  "py_float s =
     (let (neg, body) = split_sign (lower (strip s)) in
      if body = ''inf'' \<or> body = ''infinity'' then Inr (Inf neg)
      else if body = ''nan'' then Inr NaN
      else (case parse_decimal body of
              None \<Rightarrow> Inl ValueError
            | Some x \<Rightarrow> Inr (round_double (if neg then - x else x))))"

section \<open>Numeric parsing\<close>

text \<open>
  \<^verbatim>\<open>number * multiplier\<close> followed by \<^verbatim>\<open>int(...)\<close>: exact for an integer literal, a float
  product truncated toward zero for a decimal one.
\<close>

definition scale_float :: "pyfloat \<Rightarrow> int \<Rightarrow> exn + int" where
  "scale_float number multiplier =
     (case float_of_int multiplier of
        Inl e \<Rightarrow> Inl e
      | Inr m \<Rightarrow> int_of_float (float_mul number m))"

text \<open>\<^verbatim>\<open>parse_amount\<close>: the suffixes are tried in the order \<^verbatim>\<open>m\<close>, \<^verbatim>\<open>k\<close>, \<^verbatim>\<open>b\<close>.\<close>

definition parse_amount :: "string \<Rightarrow> exn + int" where
  "parse_amount value_str =
     (let val = strip (remove_char (CHR ''_'') (remove_char (CHR '','') (lower value_str)));
          (multiplier, val) =
             (if endswith val (CHR ''m'') then (1000000, butlast val)
              else if endswith val (CHR ''k'') then (1000, butlast val)
              else if endswith val (CHR ''b'') then (1000000000, butlast val)
              else (1, val))
      in if CHR ''.'' \<in> set val
         then (case py_float val of
                 Inl e \<Rightarrow> Inl e
               | Inr number \<Rightarrow> scale_float number multiplier)
         else (case py_int val of
                 Inl e \<Rightarrow> Inl e
               | Inr number \<Rightarrow> Inr (number * multiplier)))"

section \<open>Item cache\<close>

text \<open>
  An item of the catalog, as the JSON object the API sends: \<^verbatim>\<open>name\<close>, \<^verbatim>\<open>value\<close> (read with
  \<^verbatim>\<open>.get("value", 0)\<close>, so it may be absent) and an optional \<^verbatim>\<open>attachment\<close>.
\<close>

record item =
  name :: string
  item_value :: "int option"
  item_attachment :: "string option"

text \<open>
  An element of the list the API sends, and so of the snapshot: the code stores the list
  without looking at its elements. An element is an item, or a JSON value that is not an
  object (a number, a string, a list, null), or an object without a \<^verbatim>\<open>name\<close> entry.
\<close>

datatype entry = Item item | NotAnObject | NoName

text \<open>
  What \<^verbatim>\<open>requests.get(url, timeout=5)\<close> followed by \<^verbatim>\<open>resp.json()\<close> can give:
  \<open>RequestFailed\<close> stands for any exception inside the \<^verbatim>\<open>try\<close> block (transport error,
  timeout, a body that is not JSON, JSON that is not an object); \<open>Payload success body\<close> is a
  JSON object whose \<^verbatim>\<open>success\<close> entry is truthy or not and whose \<^verbatim>\<open>body\<close> entry is a list
  (\<open>Some\<close>, with whatever elements) or anything else (\<open>None\<close>).
\<close>

datatype api_response = RequestFailed | Payload bool "entry list option"

text \<open>How a call of \<^verbatim>\<open>save_json\<close> ends: the file is rewritten, \<^verbatim>\<open>open\<close> fails and the file
  stays as it was, or \<^verbatim>\<open>json.dump\<close> fails and leaves a truncated file. The exception is
  logged in both failures, never raised.\<close>

datatype write_result = Written | OpenFailed | DumpFailed

text \<open>A file holds a JSON value or is missing or corrupt (\<open>None\<close>).\<close>

definition save_json :: "write_result \<Rightarrow> 'a \<Rightarrow> 'a option \<Rightarrow> 'a option" where
  "save_json w data file =
     (case w of Written \<Rightarrow> Some data | OpenFailed \<Rightarrow> file | DumpFailed \<Rightarrow> None)"

definition load_json :: "'a option \<Rightarrow> 'a \<Rightarrow> 'a" where
  "load_json file dflt = (case file of None \<Rightarrow> dflt | Some data \<Rightarrow> data)"

text \<open>
  \<^verbatim>\<open>fetch_items_from_api\<close>: the body as it came when the payload says success and the body is
  a list, else the empty list.
\<close>

definition fetch_items_from_api :: "api_response \<Rightarrow> entry list" where
  "fetch_items_from_api resp =
     (case resp of
        RequestFailed \<Rightarrow> []
      | Payload success body \<Rightarrow>
          (case body of
             None \<Rightarrow> []
           | Some items \<Rightarrow> if success then items else []))"

subsection \<open>Fuzzy search\<close>

text \<open>
  The scorer \<^verbatim>\<open>fuzz.WRatio\<close> belongs to the rapidfuzz library; it is a parameter here, a
  function from the query and a candidate name to a score.
\<close>

type_synonym scorer = "string \<Rightarrow> string \<Rightarrow> rat"

text \<open>
  Modelled from the spec: the loop of \<^verbatim>\<open>process.extractOne\<close>, which is library code outside
  this repository. It goes through the choices in order and keeps the best triple of choice,
  score and index seen so far, replacing it only by a strictly higher score, so that among
  equal scores the first encountered wins.
\<close>

fun extract_scan ::
  "(string \<Rightarrow> rat) \<Rightarrow> string list \<Rightarrow> nat \<Rightarrow> string \<times> rat \<times> nat \<Rightarrow> string \<times> rat \<times> nat" where
  "extract_scan f [] i best = best"
| "extract_scan f (c # cs) i best =
     extract_scan f cs (Suc i) (if fst (snd best) < f c then (c, f c, i) else best)"

text \<open>
  Modelled from the spec: \<^verbatim>\<open>process.extractOne(query, choices, scorer=...)\<close>, library code
  outside this repository, on a non-empty list of choices (the first choice \<open>c\<close> and the
  others \<open>cs\<close>): the choice with the highest score, its score and its index.
\<close>

definition extractOne :: "scorer \<Rightarrow> string \<Rightarrow> string \<Rightarrow> string list \<Rightarrow> string \<times> rat \<times> nat" where
  "extractOne sc query c cs = extract_scan (sc query) cs 1 (c, sc query c, 0)"

text \<open>
  The comprehension \<^verbatim>\<open>[item["name"] for item in items]\<close> reads the name of every element,
  from left to right: a value that is not an object raises \<^verbatim>\<open>TypeError\<close>, an object without
  the key raises \<^verbatim>\<open>KeyError\<close>. When it succeeds every element is an item; the result keeps
  the items, whose names are the list the source builds.
\<close>

fun read_items :: "entry list \<Rightarrow> exn + item list" where
  "read_items [] = Inr []"
| "read_items (Item it # es) = (case read_items es of Inl e \<Rightarrow> Inl e | Inr its \<Rightarrow> Inr (it # its))"
| "read_items (NotAnObject # es) = Inl TypeError"
| "read_items (NoName # es) = Inl KeyError"

text \<open>
  \<^verbatim>\<open>fuzzy_search_item\<close>: nothing for an empty list; otherwise the names are read, which may
  raise, and the result is the item at the index of the best name, when that name is a
  non-empty string and its score reaches the threshold.
\<close>

definition fuzzy_search_item :: "scorer \<Rightarrow> string \<Rightarrow> entry list \<Rightarrow> rat \<Rightarrow> exn + item option" where
  "fuzzy_search_item sc query items threshold =
     (if items = [] then Inr None
      else (case read_items items of
              Inl e \<Rightarrow> Inl e
            | Inr its \<Rightarrow>
                (case its of
                   [] \<Rightarrow> Inr None
                 | it # rest \<Rightarrow>
                     (let (best_match, score, idx) = extractOne sc query (name it) (map name rest)
                      in if best_match \<noteq> [] \<and> threshold \<le> score then Inr (Some (its ! idx))
                         else Inr None))))"

section \<open>The store\<close>

type_synonym guild_id = nat
type_synonym channel_id = nat
type_synonym user_id = nat
type_synonym role_id = nat
type_synonym addr = nat

text \<open>
  A guild configuration dictionary. \<^verbatim>\<open>ticket_counter\<close> is read with
  \<^verbatim>\<open>.get("ticket_counter", 0)\<close>: an absent key counts as 0.
\<close>

record config =
  category_id :: "channel_id option"
  staff_roles :: "role_id list"
  ticket_counter :: "int option"

definition default_config :: config where
  "default_config = \<lparr>category_id = None, staff_roles = [], ticket_counter = Some 0\<rparr>"

text \<open>A ticket dictionary; \<open>value_each\<close> is its \<^verbatim>\<open>"value"\<close> entry.\<close>

record ticket =
  ticket_id :: int
  guild_id :: guild_id
  user_id :: user_id
  item_name :: string
  attachment :: "string option"
  value_each :: int
  quantity :: int
  starting_bid :: int

text \<open>A channel of the platform: its name and the \<^verbatim>\<open>view_channel\<close> overwrites.\<close>

datatype target = DefaultRole | Member user_id | Role role_id

record channel =
  channel_name :: string
  overwrites :: "target \<rightharpoonup> bool"

text \<open>
  The module's globals, the files behind them and the platform. Configuration dictionaries
  are objects: \<open>guild_configs\<close> maps a guild to the address of its dictionary in \<open>heap\<close>, and
  a creation form holds such an address too, so that two references to one dictionary see
  each other's updates and references to two dictionaries do not. \<open>tasks\<close> are the pending
  \<^verbatim>\<open>schedule_channel_deletion\<close> coroutines, each with the time it still sleeps.
\<close>

record state =
  heap :: "addr \<Rightarrow> config"
  next_addr :: addr
  guild_configs :: "guild_id \<rightharpoonup> addr"
  auction_tickets :: "channel_id \<rightharpoonup> ticket"
  cached_items :: "entry list"
  config_file :: "(guild_id \<rightharpoonup> config) option"
  tickets_file :: "(channel_id \<rightharpoonup> ticket) option"
  items_file :: "entry list option"
  channels :: "channel_id \<rightharpoonup> channel"
  tasks :: "(channel_id \<times> nat) list"

definition save_configs :: "write_result \<Rightarrow> state \<Rightarrow> state" where
  "save_configs w s =
     s\<lparr>config_file := save_json w (map_option (heap s) \<circ> guild_configs s) (config_file s)\<rparr>"

definition save_tickets :: "write_result \<Rightarrow> state \<Rightarrow> state" where
  "save_tickets w s = s\<lparr>tickets_file := save_json w (auction_tickets s) (tickets_file s)\<rparr>"

definition save_items :: "write_result \<Rightarrow> state \<Rightarrow> state" where
  "save_items w s = s\<lparr>items_file := save_json w (cached_items s) (items_file s)\<rparr>"

definition update_items_cache :: "api_response \<Rightarrow> write_result \<Rightarrow> state \<Rightarrow> state" where
  "update_items_cache resp w s =
     (let new_items = fetch_items_from_api resp
      in if new_items \<noteq> [] then save_items w (s\<lparr>cached_items := new_items\<rparr>) else s)"

definition get_cached_items :: "state \<Rightarrow> entry list" where
  "get_cached_items s = cached_items s"

section \<open>Bid limit\<close>

text \<open>
  \<^verbatim>\<open>int(total_worth * 0.30)\<close>: the integer becomes a float, is multiplied by the float that
  the literal \<^verbatim>\<open>0.30\<close> denotes, and the product is truncated.
\<close>

definition max_allowed :: "int \<Rightarrow> exn + int" where
  "max_allowed total_worth =
     (case float_of_int total_worth of
        Inl e \<Rightarrow> Inl e
      | Inr f \<Rightarrow> int_of_float (float_mul f (round_double (30 / 100))))"

section \<open>Ticket lifecycle\<close>

record role =
  role_ident :: role_id
  manage_channels :: bool

record member =
  member_id :: user_id
  member_name :: string
  discriminator :: string
  roles :: "role list"
  administrator :: bool

record interaction =
  in_guild_id :: guild_id
  in_channel_id :: channel_id
  user :: member

text \<open>
  The creation form: the configuration dictionary it was built with (an address) and the
  three text inputs.
\<close>

record modal =
  guild_config :: addr
  item_name_input :: string
  quantity_input :: string
  starting_bid_input :: string

text \<open>
  What a handler tells the caller. Each constructor stands for one of the messages of the
  source; the text and the numbers quoted in it are left out. \<open>Raised\<close> is an exception
  that leaves the handler: a Python exception no \<^verbatim>\<open>except\<close> clause catches, or a failure of
  a platform call made outside \<^verbatim>\<open>try\<close>.
\<close>

datatype reply =
    InvalidAmount | ItemNotFound | InvalidItemValue | BelowMinimumWorth | BidExceedsRatio
  | TicketCreated channel_id | TicketNotFound | Unauthorized | BidUpdated | TicketClosed
  | Cancelled | AdminOnly | ModalSent

datatype failure = Uncaught exn | PlatformError

datatype outcome = Reply reply | Raised failure

text \<open>\<^verbatim>\<open>except ValueError\<close> around \<^verbatim>\<open>parse_amount\<close>: only that exception is answered.\<close>

definition parse_failure :: "exn \<Rightarrow> outcome" where
  "parse_failure e = (case e of ValueError \<Rightarrow> Reply InvalidAmount | _ \<Rightarrow> Raised (Uncaught e))"

definition is_owner :: "ticket \<Rightarrow> member \<Rightarrow> bool" where
  "is_owner t u \<longleftrightarrow> user_id t = member_id u"

definition is_staff :: "member \<Rightarrow> bool" where
  "is_staff u \<longleftrightarrow> list_ex manage_channels (roles u)"

text \<open>\<^verbatim>\<open>s.replace(a, b)\<close> for one-character strings.\<close>

definition replace_char :: "char \<Rightarrow> char \<Rightarrow> string \<Rightarrow> string" where
  "replace_char a b s = map (\<lambda>c. if c = a then b else c) s"

subsection \<open>Platform calls\<close>

definition set_permissions :: "channel_id \<Rightarrow> target \<Rightarrow> bool \<Rightarrow> state \<Rightarrow> state" where
  "set_permissions ch tgt v s =
     (case channels s ch of
        None \<Rightarrow> s
      | Some c \<Rightarrow> s\<lparr>channels := (channels s)(ch \<mapsto> c\<lparr>overwrites := (overwrites c)(tgt \<mapsto> v)\<rparr>)\<rparr>)"

definition rename_channel :: "channel_id \<Rightarrow> string \<Rightarrow> state \<Rightarrow> state" where
  "rename_channel ch new_name s =
     (case channels s ch of
        None \<Rightarrow> s
      | Some c \<Rightarrow> s\<lparr>channels := (channels s)(ch \<mapsto> c\<lparr>channel_name := new_name\<rparr>)\<rparr>)"

definition delete_channel :: "channel_id \<Rightarrow> state \<Rightarrow> state" where
  "delete_channel ch s = s\<lparr>channels := (channels s)(ch := None)\<rparr>"

text \<open>
  \<^verbatim>\<open>bot.loop.create_task(schedule_channel_deletion(channel, delay))\<close>: a task that sleeps for
  \<open>delay\<close> and then deletes the channel, logging a failure of the deletion.
\<close>

definition schedule_channel_deletion :: "channel_id \<Rightarrow> nat \<Rightarrow> state \<Rightarrow> state" where
  "schedule_channel_deletion ch delay s = s\<lparr>tasks := tasks s @ [(ch, delay)]\<rparr>"

text \<open>
  Time passing by \<open>d\<close> units: every task whose sleep ends within \<open>d\<close> attempts its deletion
  (\<open>delete_ok\<close> says for which channels the platform carries it out) and is gone; the others
  sleep on.
\<close>

definition elapse :: "(channel_id \<Rightarrow> bool) \<Rightarrow> nat \<Rightarrow> state \<Rightarrow> state" where
  "elapse delete_ok d s =
     s\<lparr>channels := fold (\<lambda>(c, r) m. if r \<le> d \<and> delete_ok c then m(c := None) else m)
                     (tasks s) (channels s),
       tasks := map (\<lambda>(c, r). (c, r - d)) (filter (\<lambda>(c, r). d < r) (tasks s))\<rparr>"

subsection \<open>Opening the form\<close>

text \<open>
  \<^verbatim>\<open>guild_configs.get(guild_id, {"category_id": None, "staff_roles": [], "ticket_counter": 0})\<close>:
  the guild's dictionary when it has one, else a new dictionary, which is not stored.
\<close>

definition get_config :: "guild_id \<Rightarrow> state \<Rightarrow> addr \<times> state" where
  "get_config g s =
     (case guild_configs s g of
        Some a \<Rightarrow> (a, s)
      | None \<Rightarrow>
          (next_addr s,
           s\<lparr>heap := (heap s)(next_addr s := default_config), next_addr := Suc (next_addr s)\<rparr>))"

text \<open>\<^verbatim>\<open>create_auction\<close>: an administrator gets a form built with that configuration.\<close>

definition create_auction :: "interaction \<Rightarrow> state \<Rightarrow> outcome \<times> addr option \<times> state" where
  "create_auction intr s =
     (if \<not> administrator (user intr) then (Reply AdminOnly, None, s)
      else (let (a, s') = get_config (in_guild_id intr) s in (Reply ModalSent, Some a, s')))"

subsection \<open>Creating a ticket\<close>

definition creation_overwrites :: "user_id \<Rightarrow> role_id list \<Rightarrow> role_id list \<Rightarrow> target \<rightharpoonup> bool" where
  "creation_overwrites uid staff_role_ids existing_roles =
     fold (\<lambda>r_id m. if r_id \<in> set existing_roles then m(Role r_id \<mapsto> True) else m)
          staff_role_ids [DefaultRole \<mapsto> False, Member uid \<mapsto> True]"

text \<open>
  The second half of \<^verbatim>\<open>on_submit\<close>, after the checks: the counter of the form's
  configuration goes up by one and that dictionary is stored as the guild's; the channel is
  created (\<open>created\<close> is the id the platform gives it, \<open>None\<close> when the call fails, and
  \<open>existing_roles\<close> are the ids \<^verbatim>\<open>guild.get_role\<close> finds); the ticket is stored under the
  channel id.
\<close>

definition open_ticket ::
  "role_id list \<Rightarrow> channel_id option \<Rightarrow> write_result \<Rightarrow> write_result \<Rightarrow> modal \<Rightarrow> interaction \<Rightarrow>
   item \<Rightarrow> int \<Rightarrow> int \<Rightarrow> int \<Rightarrow> state \<Rightarrow> outcome \<times> state" where
  "open_ticket existing_roles created w_configs w_tickets form intr matched_item value_each'
     quantity_val starting_bid_val s =
     (let a = guild_config form;
          config = heap s a;
          current_ticket_num = (case ticket_counter config of None \<Rightarrow> 0 | Some n \<Rightarrow> n) + 1;
          s1 = save_configs w_configs
                 (s\<lparr>heap := (heap s)(a := config\<lparr>ticket_counter := Some current_ticket_num\<rparr>),
                    guild_configs := (guild_configs s)(in_guild_id intr \<mapsto> a)\<rparr>);
          channel_name' = ''auction-'' @ replace_char (CHR '' '') (CHR ''-'') (lower (member_name (user intr)))
                          @ ''-'' @ discriminator (user intr)
      in case created of
           None \<Rightarrow> (Raised PlatformError, s1)
         | Some ch \<Rightarrow>
             (Reply (TicketCreated ch),
              save_tickets w_tickets
                (s1\<lparr>channels := (channels s1)(ch \<mapsto>
                       \<lparr>channel_name = channel_name',
                        overwrites = creation_overwrites (member_id (user intr))
                                       (staff_roles config) existing_roles\<rparr>),
                    auction_tickets := (auction_tickets s1)(ch \<mapsto>
                       \<lparr>ticket_id = current_ticket_num,
                        guild_id = in_guild_id intr,
                        user_id = member_id (user intr),
                        item_name = name matched_item,
                        attachment = item_attachment matched_item,
                        value_each = value_each',
                        quantity = quantity_val,
                        starting_bid = starting_bid_val\<rparr>)\<rparr>)))"

text \<open>\<^verbatim>\<open>AuctionCreateModal.on_submit\<close>, with \<^verbatim>\<open>fuzz.WRatio\<close> as the parameter \<open>sc\<close>.\<close>

definition on_submit ::
  "scorer \<Rightarrow> role_id list \<Rightarrow> channel_id option \<Rightarrow> write_result \<Rightarrow> write_result \<Rightarrow> modal \<Rightarrow>
   interaction \<Rightarrow> state \<Rightarrow> outcome \<times> state" where
  "on_submit sc existing_roles created w_configs w_tickets form intr s =
     (case parse_amount (strip (quantity_input form)) of
        Inl e \<Rightarrow> (parse_failure e, s)
      | Inr quantity_val \<Rightarrow>
     (case parse_amount (strip (starting_bid_input form)) of
        Inl e \<Rightarrow> (parse_failure e, s)
      | Inr starting_bid_val \<Rightarrow>
     (case fuzzy_search_item sc (strip (item_name_input form)) (get_cached_items s) 65 of
        Inl e \<Rightarrow> (Raised (Uncaught e), s)
      | Inr None \<Rightarrow> (Reply ItemNotFound, s)
      | Inr (Some matched_item) \<Rightarrow>
          (let value_each' = (case item_value matched_item of None \<Rightarrow> 0 | Some v \<Rightarrow> v)
           in if value_each' \<le> 0 then (Reply InvalidItemValue, s)
              else (let total_worth = value_each' * quantity_val
                    in if total_worth < 10000000 then (Reply BelowMinimumWorth, s)
                       else (case max_allowed total_worth of
                               Inl e \<Rightarrow> (Raised (Uncaught e), s)
                             | Inr limit \<Rightarrow>
                                 if limit < starting_bid_val then (Reply BidExceedsRatio, s)
                                 else open_ticket existing_roles created w_configs w_tickets
                                        form intr matched_item value_each' quantity_val
                                        starting_bid_val s))))))"

subsection \<open>Editing the bid\<close>

text \<open>\<^verbatim>\<open>AuctionCog.edit_bid\<close>.\<close>

definition edit_bid :: "write_result \<Rightarrow> string \<Rightarrow> interaction \<Rightarrow> state \<Rightarrow> outcome \<times> state" where
  "edit_bid w new_bid intr s =
     (let channel_id = in_channel_id intr
      in case auction_tickets s channel_id of
           None \<Rightarrow> (Reply TicketNotFound, s)
         | Some t \<Rightarrow>
             if \<not> (is_owner t (user intr) \<or> is_staff (user intr)) then (Reply Unauthorized, s)
             else (case parse_amount (strip new_bid) of
                     Inl e \<Rightarrow> (parse_failure e, s)
                   | Inr new_bid_val \<Rightarrow>
                       (case max_allowed (value_each t * quantity t) of
                          Inl e \<Rightarrow> (Raised (Uncaught e), s)
                        | Inr limit \<Rightarrow>
                            if limit < new_bid_val then (Reply BidExceedsRatio, s)
                            else (Reply BidUpdated,
                                  save_tickets w
                                    (s\<lparr>auction_tickets := (auction_tickets s)(channel_id \<mapsto>
                                          t\<lparr>starting_bid := new_bid_val\<rparr>)\<rparr>)))))"

subsection \<open>Closing and cancelling\<close>

text \<open>
  \<^verbatim>\<open>AuctionCog.close_auction\<close>. \<open>owner_member\<close> is what \<^verbatim>\<open>get_member\<close> finds (the owner's name,
  or nothing when the owner has left); \<open>perms_ok\<close> and \<open>rename_ok\<close> say whether the two
  platform calls inside \<^verbatim>\<open>try\<close> succeed.
\<close>

definition close_auction ::
  "string option \<Rightarrow> bool \<Rightarrow> bool \<Rightarrow> write_result \<Rightarrow> interaction \<Rightarrow> state \<Rightarrow> outcome \<times> state" where
  "close_auction owner_member perms_ok rename_ok w intr s =
     (let channel_id = in_channel_id intr
      in case auction_tickets s channel_id of
           None \<Rightarrow> (Reply TicketNotFound, s)
         | Some t \<Rightarrow>
             if \<not> (is_owner t (user intr) \<or> is_staff (user intr)) then (Reply Unauthorized, s)
             else (let s1 = (case owner_member of
                               None \<Rightarrow> s
                             | Some _ \<Rightarrow>
                                 if perms_ok
                                 then set_permissions channel_id (Member (user_id t)) False s
                                 else s);
                       new_name = (case owner_member of
                                     None \<Rightarrow> ''closed-ticket''
                                   | Some nm \<Rightarrow>
                                       ''closed-'' @ replace_char (CHR '' '') (CHR ''-'') (lower nm)
                                       @ ''-ticket'');
                       s2 = (if rename_ok then rename_channel channel_id new_name s1 else s1);
                       s3 = save_tickets w
                              (s2\<lparr>auction_tickets := (auction_tickets s2)(channel_id := None)\<rparr>)
                   in (Reply TicketClosed, schedule_channel_deletion channel_id 3600 s3)))"

text \<open>\<^verbatim>\<open>AuctionTicketView.close_button\<close> has the body of \<^verbatim>\<open>close_auction\<close>.\<close>

definition close_button ::
  "string option \<Rightarrow> bool \<Rightarrow> bool \<Rightarrow> write_result \<Rightarrow> interaction \<Rightarrow> state \<Rightarrow> outcome \<times> state" where
  "close_button = close_auction"

text \<open>
  \<^verbatim>\<open>AuctionTicketView.cancel_button\<close>. The channel deletion is outside \<^verbatim>\<open>try\<close>: when it fails
  (\<open>delete_ok\<close> false) the exception leaves the handler, after the record has been removed.
\<close>

definition cancel_button :: "write_result \<Rightarrow> bool \<Rightarrow> interaction \<Rightarrow> state \<Rightarrow> outcome \<times> state" where
  "cancel_button w delete_ok intr s =
     (let channel_id = in_channel_id intr
      in case auction_tickets s channel_id of
           None \<Rightarrow> (Reply TicketNotFound, s)
         | Some t \<Rightarrow>
             if \<not> (is_owner t (user intr) \<or> is_staff (user intr)) then (Reply Unauthorized, s)
             else (let s1 = save_tickets w
                              (s\<lparr>auction_tickets := (auction_tickets s)(channel_id := None)\<rparr>)
                   in if delete_ok then (Reply Cancelled, delete_channel channel_id s1)
                      else (Raised PlatformError, s1)))"

section \<open>Runs of the cog\<close>

text \<open>
  The handlers as events, so that the states the cog can reach are the results of runs.
  Each event carries the inputs of its handler, including what the platform and the file
  system answer.
\<close>

datatype event =
    OpenForm interaction
  | Submit "role_id list" "channel_id option" write_result write_result modal interaction
  | EditBid write_result string interaction
  | CloseAuction "string option" bool bool write_result interaction
  | CloseButton "string option" bool bool write_result interaction
  | CancelButton write_result bool interaction
  | RefreshCache api_response write_result
  | Elapse "channel_id \<Rightarrow> bool" nat

fun step :: "scorer \<Rightarrow> state \<Rightarrow> event \<Rightarrow> state" where
  "step sc s (OpenForm intr) = snd (snd (create_auction intr s))"
| "step sc s (Submit existing_roles created w_configs w_tickets form intr) =
     snd (on_submit sc existing_roles created w_configs w_tickets form intr s)"
| "step sc s (EditBid w new_bid intr) = snd (edit_bid w new_bid intr s)"
| "step sc s (CloseAuction owner_member perms_ok rename_ok w intr) =
     snd (close_auction owner_member perms_ok rename_ok w intr s)"
| "step sc s (CloseButton owner_member perms_ok rename_ok w intr) =
     snd (close_button owner_member perms_ok rename_ok w intr s)"
| "step sc s (CancelButton w delete_ok intr) = snd (cancel_button w delete_ok intr s)"
| "step sc s (RefreshCache resp w) = update_items_cache resp w s"
| "step sc s (Elapse delete_ok d) = elapse delete_ok d s"

definition run :: "scorer \<Rightarrow> state \<Rightarrow> event list \<Rightarrow> state" where
  "run sc s evs = foldl (step sc) s evs"

text \<open>The state after start-up when no file exists: every \<^verbatim>\<open>load_json\<close> gives its default.\<close>

definition empty_state :: state where
  "empty_state =
     \<lparr>heap = (\<lambda>_. default_config), next_addr = 0, guild_configs = Map.empty,
      auction_tickets = Map.empty, cached_items = load_json None [],
      config_file = None, tickets_file = None, items_file = None,
      channels = Map.empty, tasks = []\<rparr>"

subsection \<open>The bid-ratio property of a ticket\<close>

text \<open>
  A ticket respects the ratio when its bid is at most three tenths of its total worth,
  rounded down. The property is asked of totals from 0 up to \<open>2^51\<close>, where the float
  product of the source is exact.
\<close>

definition within_limit :: "ticket \<Rightarrow> bool" where
  "within_limit t \<longleftrightarrow>
     (let total_worth = value_each t * quantity t
      in 0 \<le> total_worth \<and> total_worth < 2 ^ 51 \<longrightarrow> starting_bid t \<le> 3 * total_worth div 10)"

definition tickets_within_limit :: "state \<Rightarrow> bool" where
  "tickets_within_limit s \<longleftrightarrow> (\<forall>t \<in> ran (auction_tickets s). within_limit t)"

subsection \<open>The best match, in the words of the specification\<close>

text \<open>
  Index \<open>i\<close> is the best match among the names when no name scores higher and every earlier
  name scores strictly lower: the highest score, and the first encountered among equals.
\<close>

definition first_best :: "(string \<Rightarrow> rat) \<Rightarrow> string list \<Rightarrow> nat \<Rightarrow> bool" where
  "first_best f names i \<longleftrightarrow>
     i < length names \<and>
     (\<forall>j < length names. f (names ! j) \<le> f (names ! i)) \<and>
     (\<forall>j < i. f (names ! j) < f (names ! i))"

subsection \<open>The counter of a guild\<close>

text \<open>
  The ticket counter of a guild is the counter of its stored configuration; a guild without
  one counts from 0, the default it gets on first use.
\<close>

definition guild_counter :: "state \<Rightarrow> guild_id \<Rightarrow> int" where
  "guild_counter s g =
     (case guild_configs s g of
        None \<Rightarrow> 0
      | Some a \<Rightarrow> (case ticket_counter (heap s a) of None \<Rightarrow> 0 | Some n \<Rightarrow> n))"

subsection \<open>A scenario\<close>

text \<open>
  The catalog holds two items, Blue Gem, worth 5000000 each, and Pebble, worth 1 each;
  names are matched by a scorer that gives 100 to an equal name and 0 to any other; Alice,
  without roles, asks for tickets in guild 1, and the platform numbers the new channel 7.
  Bob has no role either, the moderator holds a role that may manage channels, and Carol is
  an administrator of the guild.
\<close>

definition blue_gem :: item where
  "blue_gem = \<lparr>name = ''Blue Gem'', item_value = Some 5000000, item_attachment = None\<rparr>"

definition pebble :: item where
  "pebble = \<lparr>name = ''Pebble'', item_value = Some 1, item_attachment = None\<rparr>"

definition exact_match :: scorer where
  "exact_match query choice = (if query = choice then 100 else 0)"

definition alice :: member where
  "alice = \<lparr>member_id = 11, member_name = ''Alice'', discriminator = ''0001'', roles = [],
            administrator = False\<rparr>"

definition bob :: member where
  "bob = \<lparr>member_id = 13, member_name = ''Bob'', discriminator = ''0003'', roles = [],
          administrator = False\<rparr>"


definition carol :: member where
  "carol = \<lparr>member_id = 12, member_name = ''Carol'', discriminator = ''0002'', roles = [],
            administrator = True\<rparr>"

definition stocked_state :: state where
  "stocked_state = empty_state\<lparr>cached_items := [Item blue_gem, Item pebble]\<rparr>"

definition request :: "string \<Rightarrow> string \<Rightarrow> string \<Rightarrow> modal" where
  "request item_text quantity_text bid_text =
     \<lparr>guild_config = 0, item_name_input = item_text, quantity_input = quantity_text,
      starting_bid_input = bid_text\<rparr>"

definition in_guild :: "channel_id \<Rightarrow> member \<Rightarrow> interaction" where
  "in_guild ch u = \<lparr>in_guild_id = 1, in_channel_id = ch, user = u\<rparr>"

definition submit :: "modal \<Rightarrow> state \<Rightarrow> outcome \<times> state" where
  "submit form s = on_submit exact_match [] (Some 7) Written Written form (in_guild 3 alice) s"

section \<open>Properties of binary64 rounding\<close>

subsection \<open>Powers of two and the binary exponent\<close>

lemma pow2_pos: "0 < pow2 e"
  by (simp add: pow2_def)

lemma pow2_add: "pow2 (a + b) = pow2 a * pow2 b"
  by (simp add: pow2_def power_int_add)

lemma pow2_nonneg_exp: "0 \<le> e \<Longrightarrow> pow2 e = 2 ^ nat e"
  by (simp add: pow2_def power_int_nonneg_exp)

lemma pow2_less: "a < b \<Longrightarrow> pow2 a < pow2 b"
  by (simp add: pow2_def power_int_strict_increasing)

lemma pow2_le: "a \<le> b \<Longrightarrow> pow2 a \<le> pow2 b"
  by (simp add: pow2_def power_int_increasing)

lemma pow2_less_cancel: "pow2 a < pow2 b \<Longrightarrow> a < b"
  using pow2_le [of b a] by (cases "a < b") auto

lemma pow2_diff: "pow2 (a - b) = pow2 a / pow2 b"
  by (simp add: pow2_def power_int_diff)

lemma of_int_bitlen_bounds:
  assumes "0 < n"
  shows "pow2 (bitlen n - 1) \<le> of_int n" and "of_int n < pow2 (bitlen n)"
proof -
  from assms have b: "1 \<le> bitlen n"
    by (simp add: bitlen_alt_def)
  from bitlen_bounds [OF assms]
  have l: "2 ^ nat (bitlen n - 1) \<le> n" and u: "n < 2 ^ nat (bitlen n)" by auto
  from l have "(of_int (2 ^ nat (bitlen n - 1)) :: rat) \<le> of_int n"
    by (simp only: of_int_le_iff)
  with b show "pow2 (bitlen n - 1) \<le> of_int n"
    by (simp add: pow2_nonneg_exp)
  from u have "(of_int n :: rat) < of_int (2 ^ nat (bitlen n))"
    by (simp only: of_int_less_iff)
  with b show "of_int n < pow2 (bitlen n)"
    by (simp add: pow2_nonneg_exp)
qed

lemma floor_log2_bounds:
  assumes "0 < x"
  shows "pow2 (floor_log2 x) \<le> x \<and> x < pow2 (floor_log2 x + 1)"
proof -
  obtain n d where q: "quotient_of x = (n, d)" by force
  have d: "0 < d" using quotient_of_denom_pos [OF q] .
  have x: "x = of_int n / of_int d" using quotient_of_div [OF q] .
  from assms x d have n: "0 < n"
    by (simp add: zero_less_divide_iff)
  define k where "k = bitlen n - bitlen d"
  have "x < pow2 (bitlen n) / pow2 (bitlen d - 1)"
    unfolding x using of_int_bitlen_bounds [OF n] of_int_bitlen_bounds [OF d] d n pow2_pos
    by (intro frac_less) auto
  then have up: "x < pow2 (k + 1)"
    by (simp add: k_def pow2_diff [symmetric] algebra_simps)
  have "pow2 (bitlen n - 1) / pow2 (bitlen d) < x"
    unfolding x using of_int_bitlen_bounds [OF n] of_int_bitlen_bounds [OF d] d n pow2_pos
    by (intro frac_less2) auto
  then have lo: "pow2 (k - 1) < x"
    by (simp add: k_def pow2_diff [symmetric] algebra_simps)
  show ?thesis
    using up lo by (auto simp: floor_log2_def q k_def [symmetric])
qed

lemma floor_log2_unique:
  assumes "0 < x" "pow2 e \<le> x" "x < pow2 (e + 1)"
  shows "floor_log2 x = e"
proof -
  from floor_log2_bounds [OF assms(1)]
  have l: "pow2 (floor_log2 x) \<le> x" and u: "x < pow2 (floor_log2 x + 1)" by auto
  from l assms(3) have "floor_log2 x < e + 1" by (intro pow2_less_cancel) simp
  moreover from u assms(2) have "e < floor_log2 x + 1" by (intro pow2_less_cancel) simp
  ultimately show ?thesis by simp
qed

subsection \<open>Rounding to the nearest integer\<close>

lemma round_half_even_near:
  assumes "\<bar>x - of_int m\<bar> < 1 / 2"
  shows "round_half_even x = m"
proof -
  have "\<lfloor>x\<rfloor> = m \<or> \<lfloor>x\<rfloor> = m - 1"
    using assms by (cases "of_int m \<le> x") (auto simp: floor_eq_iff abs_if split: if_splits)
  then show ?thesis
    using assms by (auto simp: round_half_even_def Let_def abs_if split: if_splits)
qed

lemma round_half_even_of_int: "round_half_even (of_int m) = m"
  by (rule round_half_even_near) simp

subsection \<open>Rounding to binary64\<close>

lemma round_pos_near:
  assumes x: "0 < x" and up: "x < pow2 (e + 1)" and lo: "e = - 1022 \<or> pow2 e \<le> x"
    and e: "- 1022 \<le> e"
    and near: "\<bar>x / pow2 (e - 52) - of_int m\<bar> < 1 / 2"
    and fin: "of_int m * pow2 (e - 52) < pow2 1024"
  shows "round_pos x = Some (of_int m * pow2 (e - 52))"
proof -
  have "max (floor_log2 x) (- 1022) = e"
  proof (cases "pow2 e \<le> x")
    case True
    with x up have "floor_log2 x = e" by (intro floor_log2_unique)
    with e show ?thesis by simp
  next
    case False
    with lo have e': "e = - 1022" by simp
    from floor_log2_bounds [OF x] False have "pow2 (floor_log2 x) < pow2 e" by simp
    then have "floor_log2 x < e" by (rule pow2_less_cancel)
    with e' show ?thesis by simp
  qed
  moreover have "round_half_even (x / pow2 (e - 52)) = m"
    using near by (rule round_half_even_near)
  ultimately show ?thesis
    using fin by (simp add: round_pos_def Let_def)
qed

lemma bitlen_le:
  assumes "0 < m" "m < 2 ^ n"
  shows "bitlen m \<le> int n"
proof -
  from bitlen_bounds [OF assms(1)] assms(2) have "(2::int) ^ nat (bitlen m - 1) < 2 ^ n"
    by linarith
  then have "nat (bitlen m - 1) < n" by (rule power_less_imp_less_exp [rotated]) simp
  then show ?thesis by simp
qed

lemma round_pos_dyadic:
  assumes m: "0 < m" "m < 2 ^ 53" and k: "- 1074 \<le> k" "k \<le> 971"
  shows "round_pos (of_int m * pow2 k) = Some (of_int m * pow2 k)"
proof -
  define x where "x = of_int m * pow2 k"
  define e where "e = max (bitlen m - 1 + k) (- 1022)"
  have bl: "bitlen m \<le> 53" using bitlen_le [OF m] by simp
  have xpos: "0 < x" using m pow2_pos by (simp add: x_def)
  have s: "0 \<le> k - e + 52"
    using bl k by (auto simp: e_def max_def)
  define M where "M = m * 2 ^ nat (k - e + 52)"
  have "x / pow2 (e - 52) = of_int m * pow2 (k - (e - 52))"
    by (simp add: x_def pow2_diff)
  also have "\<dots> = of_int M"
    using s by (simp add: M_def pow2_nonneg_exp algebra_simps)
  finally have xq: "x / pow2 (e - 52) = of_int M" .
  then have Mq: "of_int M * pow2 (e - 52) = x"
    using pow2_pos [of "e - 52"] by (simp add: field_simps)
  have "x < pow2 (bitlen m) * pow2 k"
    unfolding x_def using of_int_bitlen_bounds(2) [OF m(1)] pow2_pos [of k] by simp
  also have "\<dots> = pow2 (bitlen m + k)" by (simp add: pow2_add)
  finally have xup: "x < pow2 (bitlen m + k)" .
  have "pow2 (bitlen m + k) \<le> pow2 (e + 1)"
    by (rule pow2_le) (simp add: e_def)
  with xup have up: "x < pow2 (e + 1)" by simp
  have lo: "e = - 1022 \<or> pow2 e \<le> x"
  proof (cases "e = - 1022")
    case False
    then have "e = bitlen m - 1 + k" by (auto simp: e_def max_def)
    then have "pow2 e = pow2 (bitlen m - 1) * pow2 k" by (simp add: pow2_add)
    also have "\<dots> \<le> x"
      unfolding x_def using of_int_bitlen_bounds(1) [OF m(1)] pow2_pos [of k] by simp
    finally show ?thesis by simp
  qed simp
  have "pow2 (bitlen m + k) \<le> pow2 1024"
    by (rule pow2_le) (use bl k in simp)
  with xup have fin: "of_int M * pow2 (e - 52) < pow2 1024"
    by (simp add: Mq)
  have e: "- 1022 \<le> e" by (simp add: e_def)
  have near: "\<bar>x / pow2 (e - 52) - of_int M\<bar> < 1 / 2" by (simp add: xq)
  have "round_pos x = Some (of_int M * pow2 (e - 52))"
    by (rule round_pos_near [OF xpos up lo e near fin])
  then show ?thesis by (simp add: Mq x_def)
qed

lemma round_double_dyadic:
  assumes "\<bar>m\<bar> < 2 ^ 53" "- 1074 \<le> k" "k \<le> 971"
  shows "round_double (of_int m * pow2 k) = Fin (of_int m * pow2 k)"
proof -
  consider "m = 0" | "0 < m" | "m < 0" by linarith
  then show ?thesis
  proof cases
    case 1
    then show ?thesis by (simp add: round_double_def)
  next
    case 2
    with assms have "round_pos (of_int m * pow2 k) = Some (of_int m * pow2 k)"
      by (intro round_pos_dyadic) auto
    with 2 pow2_pos [of k] show ?thesis
      by (simp add: round_double_def zero_less_mult_iff)
  next
    case 3
    with assms have "round_pos (of_int (- m) * pow2 k) = Some (of_int (- m) * pow2 k)"
      by (intro round_pos_dyadic) auto
    with 3 pow2_pos [of k] show ?thesis
      by (simp add: round_double_def zero_less_mult_iff mult_less_0_iff)
  qed
qed

lemma round_double_of_int:
  assumes "\<bar>n\<bar> < 2 ^ 53"
  shows "round_double (of_int n) = Fin (of_int n)"
  using round_double_dyadic [OF assms, of 0] by (simp add: pow2_def)

lemma round_half_even_bounds: "\<bar>of_int (round_half_even z) - z\<bar> \<le> 1 / 2"
proof -
  define f where "f = \<lfloor>z\<rfloor>"
  have "of_int f \<le> z" "z < of_int f + 1" unfolding f_def by linarith+
  then show ?thesis
    unfolding round_half_even_def Let_def f_def [symmetric] by (auto simp: abs_if)
qed

lemma round_pos_normal:
  assumes x: "0 < x" and lo: "pow2 e \<le> x" and up: "x < pow2 (e + 1)"
    and e: "- 1022 \<le> e" "e \<le> 1022"
  shows "round_pos x = Some (of_int (round_half_even (x / pow2 (e - 52))) * pow2 (e - 52))"
proof -
  define q where "q = pow2 (e - 52)"
  define m where "m = round_half_even (x / q)"
  have qpos: "0 < q" by (simp add: q_def pow2_pos)
  have "of_int m - x / q \<le> 1 / 2"
    using round_half_even_bounds [of "x / q"] unfolding m_def by linarith
  then have "of_int m \<le> x / q + 1 / 2" by simp
  then have "of_int m * q \<le> (x / q + 1 / 2) * q"
    using qpos by (simp only: mult_le_cancel_right) simp
  also have "\<dots> = x + q / 2" using qpos by (simp add: field_simps)
  also have "\<dots> < pow2 (e + 1) + pow2 (e + 1)"
  proof -
    have "q < pow2 (e + 1)" unfolding q_def by (rule pow2_less) simp
    with up qpos show ?thesis by simp
  qed
  also have "\<dots> = pow2 (e + 2)"
    using pow2_add [of "e + 1" 1] by (simp add: pow2_def add.commute mult.commute)
  also have "\<dots> \<le> pow2 1024" by (rule pow2_le) (use e in simp)
  finally have fin: "of_int m * q < pow2 1024" .
  have "floor_log2 x = e" using x lo up by (rule floor_log2_unique)
  with e fin show ?thesis
    by (simp add: round_pos_def Let_def q_def m_def)
qed

lemma literal_0_30: "round_double (30 / 100) = Fin (5404319552844595 / 2 ^ 54)"
proof -
  have "round_pos (3 / 10) = Some (of_int 5404319552844595 * pow2 (- 2 - 52))"
    by (rule round_pos_near) (simp_all add: pow2_def)
  then show ?thesis
    by (simp add: round_double_def pow2_def)
qed

lemma round_half_even_ge:
  assumes "of_int k - 1 / 2 < z"
  shows "k \<le> round_half_even z"
proof -
  from round_half_even_bounds [of z] assms
  have "(of_int k :: rat) - 1 < of_int (round_half_even z)" by linarith
  then have "(of_int (k - 1) :: rat) < of_int (round_half_even z)" by simp
  then have "k - 1 < round_half_even z" by (simp only: of_int_less_iff)
  then show ?thesis by simp
qed

lemma round_half_even_less:
  assumes "z < of_int k - 1 / 2"
  shows "round_half_even z < k"
proof -
  from round_half_even_bounds [of z] assms
  have "(of_int (round_half_even z) :: rat) < of_int k" by linarith
  then show ?thesis by (simp only: of_int_less_iff)
qed

subsection \<open>The bid limit on totals below \<open>2^51\<close>\<close>

lemma product_0_30_trunc:
  assumes t: "0 < t" "t < 2 ^ 51" and c: "c = 5404319552844595 / 2 ^ 54"
  shows "\<exists>y. round_pos (of_int t * c) = Some y \<and> 0 \<le> y \<and> \<lfloor>y\<rfloor> = 3 * t div 10"
proof -
  define T :: rat where "T = of_int t"
  define x :: rat where "x = T * c"
  define N where "N = 3 * t div 10"
  define r where "r = 3 * t mod 10"
  define e where "e = floor_log2 x"
  define P where "P = pow2 e"
  have "1 \<le> t" using t by simp
  then have "(of_int 1 :: rat) \<le> of_int t" by (simp only: of_int_le_iff)
  moreover have "(of_int t :: rat) < of_int (2 ^ 51)" using t by (simp only: of_int_less_iff)
  ultimately have T: "1 \<le> T" "T < 2251799813685248" by (simp_all add: T_def)
  have x10: "90071992547409920 * x = 27021597764222975 * T" by (simp add: x_def c)
  have xpos: "0 < x" using T by (simp add: x_def c)
  have "3 * t = 10 * N + r" by (simp add: N_def r_def)
  then have "(of_int (3 * t) :: rat) = of_int (10 * N + r)" by simp
  then have TN: "3 * T = 10 * of_int N + of_int r" by (simp add: T_def)
  have "0 \<le> r" "r \<le> 9" by (simp_all add: r_def)
  then have "(of_int 0 :: rat) \<le> of_int r" "(of_int r :: rat) \<le> of_int 9"
    by (simp_all only: of_int_le_iff)
  then have r: "(0::rat) \<le> of_int r" "(of_int r :: rat) \<le> 9" by simp_all
  have P2: "pow2 (e + 1) = 2 * P" using pow2_add [of e 1] by (simp add: P_def pow2_def)
  have Px: "P \<le> x" "x < 2 * P"
    using floor_log2_bounds [OF xpos] by (simp_all add: P2 e_def [symmetric]) (simp add: P_def)
  have Ppos: "0 < P" by (simp add: P_def pow2_pos)
  have "1 / 8 < x" using T x10 by linarith
  with Px have "pow2 (- 3) < pow2 (e + 1)" by (simp add: P2) (simp add: pow2_def)
  then have elo: "- 3 < e + 1" by (rule pow2_less_cancel)
  have "x < 1125899906842624" using T x10 by linarith
  with Px have "pow2 e < pow2 50" by (simp add: P_def [symmetric]) (simp add: pow2_def)
  then have ehi: "e < 50" by (rule pow2_less_cancel)
  define s where "s = nat (52 - e)"
  define S :: int where "S = 2 ^ s"
  have s: "3 \<le> s" using ehi by (simp add: s_def)
  have q: "pow2 (e - 52) = 1 / of_int S"
    using ehi pow2_diff [of 0 "52 - e"] by (simp add: S_def s_def pow2_nonneg_exp)
  have "(2::int) ^ 3 \<le> 2 ^ s" using s by (intro power_increasing) auto
  then have S8: "8 \<le> S" by (simp add: S_def)
  then have "(of_int 8 :: rat) \<le> of_int S" by (simp only: of_int_le_iff)
  then have SR: "(8::rat) \<le> of_int S" by simp
  have PS: "of_int S * P = 4503599627370496"
  proof -
    have "of_int S * P = pow2 (52 - e) * pow2 e"
      using ehi by (simp add: S_def s_def P_def pow2_nonneg_exp)
    also have "\<dots> = pow2 52" by (simp flip: pow2_add)
    finally show ?thesis by (simp add: pow2_def)
  qed
  define m where "m = round_half_even (x / pow2 (e - 52))"
  have rp: "round_pos x = Some (of_int m * pow2 (e - 52))"
    unfolding m_def
    by (rule round_pos_normal [OF xpos]) (use Px elo ehi in \<open>simp_all add: P2\<close>, simp add: P_def)
  have z: "x / pow2 (e - 52) = x * of_int S" by (simp add: q)
  have Tlt: "T < 10 * P" using x10 Px T Ppos by linarith
  have SPT: "of_int S * T < 45035996273704960"
  proof -
    have "of_int S * T < of_int S * (10 * P)"
      using Tlt SR by (intro mult_strict_left_mono) auto
    then show ?thesis using PS by (simp add: algebra_simps)
  qed
  have lo: "of_int (N * S) - 1 / 2 < x * of_int S"
  proof -
    have "90071992547409920 * of_int N - T \<le> 90071992547409920 * x" using x10 TN r by linarith
    then have "(90071992547409920 * of_int N - T) * of_int S \<le> 90071992547409920 * x * of_int S"
      using SR by (intro mult_right_mono) auto
    with SPT show ?thesis by (simp add: algebra_simps)
  qed
  have hi: "x * of_int S < of_int ((N + 1) * S) - 1 / 2"
  proof -
    have "x < of_int N + 9 / 10" using x10 TN r T by linarith
    then have "x * of_int S < (of_int N + 9 / 10) * of_int S"
      using SR by (intro mult_strict_right_mono) auto
    moreover have "(of_int N + 9 / 10) * of_int S \<le> (of_int ((N + 1) * S) - 1 / 2 :: rat)"
      using SR by (simp add: algebra_simps)
    ultimately show ?thesis by simp
  qed
  have m1: "N * S \<le> m" unfolding m_def z by (rule round_half_even_ge [OF lo])
  have m2: "m < (N + 1) * S" unfolding m_def z by (rule round_half_even_less [OF hi])
  have Spos: "0 < S" using S8 by simp
  have "0 \<le> N" using t by (simp add: N_def)
  with m1 Spos have mpos: "0 \<le> m" by (meson mult_nonneg_nonneg less_imp_le order_trans)
  have "m div S = N"
  proof -
    have "m = S * N + (m - N * S)" by (simp add: algebra_simps)
    moreover have "0 \<le> m - N * S" "m - N * S < S" using m1 m2 by (simp_all add: algebra_simps)
    ultimately show ?thesis
      using Spos by (metis div_mult_self2 div_pos_pos_trivial add.commute add.right_neutral less_irrefl mult.commute)
  qed
  moreover have "of_int m * pow2 (e - 52) = of_int m / of_int S" by (simp add: q)
  moreover have "(0::rat) \<le> of_int m / of_int S" using mpos Spos by simp
  ultimately show ?thesis
    using rp by (simp add: x_def T_def N_def floor_divide_of_int_eq)
qed


lemma float_of_int_small:
  assumes "\<bar>n\<bar> < 2 ^ 53"
  shows "float_of_int n = Inr (Fin (of_int n))"
  by (simp add: float_of_int_def round_double_of_int [OF assms])

lemma trunc_of_int: "trunc (of_int n) = n"
  by (simp add: trunc_def)

lemma round_double_pos: "0 < x \<Longrightarrow> round_pos x = Some y \<Longrightarrow> round_double x = Fin y"
  by (simp add: round_double_def)

lemma max_allowed_product:
  assumes "\<bar>t\<bar> < 2 ^ 53" and "c = 5404319552844595 / 2 ^ 54"
  shows "max_allowed t = int_of_float (round_double (of_int t * c))"
proof -
  have f: "float_of_int t = Inr (Fin (of_int t))" using assms(1) by (rule float_of_int_small)
  show ?thesis
    by (simp only: max_allowed_def f literal_0_30 assms(2) sum.case float_mul.simps)
qed

lemma max_allowed_exact:
  assumes "0 \<le> t" "t < 2 ^ 51"
  shows "max_allowed t = Inr (3 * t div 10)"
proof -
  define c :: rat where "c = 5404319552844595 / 2 ^ 54"
  from assms have "\<bar>t\<bar> < 2 ^ 53" by simp
  then have m: "max_allowed t = int_of_float (round_double (of_int t * c))"
    using c_def by (rule max_allowed_product)
  show ?thesis
  proof (cases "t = 0")
    case True
    with m show ?thesis by (simp add: round_double_def trunc_def)
  next
    case False
    with assms have t: "0 < t" by simp
    from product_0_30_trunc [OF t assms(2) c_def] obtain y
      where y: "round_pos (of_int t * c) = Some y" "0 \<le> y" "\<lfloor>y\<rfloor> = 3 * t div 10"
      by blast
    have "0 < of_int t * c" using t by (simp add: c_def)
    then have "round_double (of_int t * c) = Fin y"
      using y(1) by (rule round_double_pos)
    then show ?thesis
      using y(2,3) by (simp add: m trunc_def)
  qed
qed

lemma max_allowed_8e15: "max_allowed 8000000000000003 = Inr 2400000000000001"
proof -
  define c :: rat where "c = 5404319552844595 / 2 ^ 54"
  have m: "max_allowed 8000000000000003 = int_of_float (round_double (of_int 8000000000000003 * c))"
    by (rule max_allowed_product [OF _ c_def]) simp
  have "round_pos (of_int 8000000000000003 * c) = Some (of_int 4800000000000002 * pow2 (51 - 52))"
    by (rule round_pos_near) (simp_all add: pow2_def c_def)
  moreover have "0 < of_int 8000000000000003 * c" by (simp add: c_def)
  ultimately have "round_double (of_int 8000000000000003 * c)
      = Fin (of_int 4800000000000002 * pow2 (51 - 52))"
    by (intro round_double_pos)
  then have "round_double (of_int 8000000000000003 * c) = Fin 2400000000000001"
    by (simp add: pow2_def)
  then show ?thesis
    by (simp add: m trunc_def)
qed

section \<open>The amount parser\<close>

lemma round_double_numeral:
  assumes "\<bar>numeral n :: int\<bar> < 2 ^ 53"
  shows "round_double (numeral n) = Fin (numeral n)"
  using round_double_of_int [OF assms] by simp

lemma py_float_1_5: "py_float ''1.5'' = Inr (Fin (3 / 2))"
proof -
  have "split_sign (lower (strip ''1.5'')) = (False, ''1.5'')" by code_simp
  moreover have "parse_decimal ''1.5'' = Some (3 / 2)" by code_simp
  moreover have "round_double (3 / 2) = Fin (3 / 2)"
    using round_double_dyadic [of 3 "- 1"] by (simp add: pow2_def)
  ultimately show ?thesis by (simp add: py_float_def)
qed

lemma py_float_minus_1_5: "py_float ''-1.5'' = Inr (Fin (- (3 / 2)))"
proof -
  have "split_sign (lower (strip ''-1.5'')) = (True, ''1.5'')" by code_simp
  moreover have "parse_decimal ''1.5'' = Some (3 / 2)" by code_simp
  moreover have "round_double (- (3 / 2)) = Fin (- (3 / 2))"
    using round_double_dyadic [of "- 3" "- 1"] by (simp add: pow2_def)
  ultimately show ?thesis by (simp add: py_float_def)
qed

lemma scale_1_5_million: "scale_float (Fin (3 / 2)) 1000000 = Inr 1500000"
proof -
  have "float_of_int 1000000 = Inr (Fin 1000000)"
    using float_of_int_small [of 1000000] by simp
  moreover have "round_double 1500000 = Fin 1500000"
    by (rule round_double_numeral) simp
  ultimately show ?thesis by (simp add: scale_float_def trunc_def)
qed

lemma floor_3_halves: "\<lfloor>3 / 2 :: rat\<rfloor> = 1"
  by (simp add: floor_eq_iff)

lemma scale_by_one:
  assumes "round_double x = Fin x"
  shows "scale_float (Fin x) 1 = Inr (trunc x)"
proof -
  have "float_of_int 1 = Inr (Fin 1)" using float_of_int_small [of 1] by simp
  with assms show ?thesis by (simp add: scale_float_def)
qed

lemma parse_amount_1_5m: "parse_amount ''1.5m'' = Inr 1500000"
proof -
  have "strip (remove_char (CHR ''_'') (remove_char (CHR '','') (lower ''1.5m''))) = ''1.5m''"
    by code_simp
  then show ?thesis
    by (simp add: parse_amount_def endswith_def py_float_1_5 scale_1_5_million)
qed

lemma parse_amount_1_5: "parse_amount ''1.5'' = Inr 1"
proof -
  have "strip (remove_char (CHR ''_'') (remove_char (CHR '','') (lower ''1.5''))) = ''1.5''"
    by code_simp
  moreover have "round_double (3 / 2) = Fin (3 / 2)"
    using round_double_dyadic [of 3 "- 1"] by (simp add: pow2_def)
  then have "scale_float (Fin (3 / 2)) 1 = Inr (trunc (3 / 2))" by (rule scale_by_one)
  ultimately show ?thesis
    by (simp add: parse_amount_def endswith_def py_float_1_5 trunc_def floor_3_halves)
qed

lemma parse_amount_minus_1_5: "parse_amount ''-1.5'' = Inr (- 1)"
proof -
  have "strip (remove_char (CHR ''_'') (remove_char (CHR '','') (lower ''-1.5''))) = ''-1.5''"
    by code_simp
  moreover have "round_double (- (3 / 2)) = Fin (- (3 / 2))"
    using round_double_dyadic [of "- 3" "- 1"] by (simp add: pow2_def)
  then have "scale_float (Fin (- (3 / 2))) 1 = Inr (trunc (- (3 / 2)))" by (rule scale_by_one)
  ultimately show ?thesis
    by (simp add: parse_amount_def endswith_def py_float_minus_1_5 trunc_def floor_3_halves)
qed

text \<open>
  Claim C8. The amount parser gives 1500000 for \<^verbatim>\<open>1.5m\<close>, 500000 for \<^verbatim>\<open>500k\<close> and 10000 for
  \<^verbatim>\<open>10,000\<close>; \<^verbatim>\<open>abc\<close> raises \<^verbatim>\<open>ValueError\<close>, which the handlers answer as an invalid amount.
  A decimal literal without suffix is accepted and the product with the multiplier is
  truncated toward zero: \<^verbatim>\<open>1.5\<close> gives 1 and \<^verbatim>\<open>-1.5\<close> gives -1.
\<close>

theorem parse_amount_examples:
  "parse_amount ''1.5m'' = Inr 1500000 \<and>
   parse_amount ''500k'' = Inr 500000 \<and>
   parse_amount ''10,000'' = Inr 10000 \<and>
   parse_amount ''abc'' = Inl ValueError \<and>
   parse_failure ValueError = Reply InvalidAmount \<and>
   parse_amount ''1.5'' = Inr 1 \<and>
   parse_amount ''-1.5'' = Inr (- 1)"
proof -
  have "parse_amount ''500k'' = Inr 500000" by code_simp
  moreover have "parse_amount ''10,000'' = Inr 10000" by code_simp
  moreover have "parse_amount ''abc'' = Inl ValueError" by code_simp
  moreover have "parse_failure ValueError = Reply InvalidAmount" by (simp add: parse_failure_def)
  ultimately show ?thesis
    using parse_amount_1_5m parse_amount_1_5 parse_amount_minus_1_5 by simp
qed

lemma lower_char_eq_comma: "lower_char c = CHR '','' \<longleftrightarrow> c = CHR '',''"
  by (auto simp: lower_char_def split: if_splits)

lemma lower_char_eq_underscore: "lower_char c = CHR ''_'' \<longleftrightarrow> c = CHR ''_''"
  by (auto simp: lower_char_def split: if_splits)

lemma separators_removed:
  "remove_char (CHR ''_'') (remove_char (CHR '','') (lower (filter (\<lambda>c. c \<noteq> CHR '','' \<and> c \<noteq> CHR ''_'') s)))
   = remove_char (CHR ''_'') (remove_char (CHR '','') (lower s))"
  by (induction s) (auto simp: remove_char_def lower_def lower_char_eq_comma lower_char_eq_underscore)

text \<open>
  Claim C10. The amount parser removes every comma and underscore wherever it occurs: an
  input and the same input without these characters parse alike, so \<^verbatim>\<open>1,,2\<close> gives 12.
  A negative literal is accepted (\<^verbatim>\<open>-5m\<close> gives -5000000), and the empty string and the
  bare suffix \<^verbatim>\<open>k\<close> raise \<^verbatim>\<open>ValueError\<close>, the invalid-amount error.
\<close>

theorem parse_amount_separators_and_signs:
  "parse_amount s = parse_amount (filter (\<lambda>c. c \<noteq> CHR '','' \<and> c \<noteq> CHR ''_'') s) \<and>
   parse_amount ''1,,2'' = Inr 12 \<and>
   parse_amount ''-5m'' = Inr (- 5000000) \<and>
   parse_amount '''' = Inl ValueError \<and>
   parse_amount ''k'' = Inl ValueError \<and>
   parse_failure ValueError = Reply InvalidAmount"
proof -
  have "parse_amount s = parse_amount (filter (\<lambda>c. c \<noteq> CHR '','' \<and> c \<noteq> CHR ''_'') s)"
    by (simp only: parse_amount_def separators_removed)
  moreover have "parse_amount ''1,,2'' = Inr 12" by code_simp
  moreover have "parse_amount ''-5m'' = Inr (- 5000000)" by code_simp
  moreover have "parse_amount '''' = Inl ValueError" by code_simp
  moreover have "parse_amount ''k'' = Inl ValueError" by code_simp
  moreover have "parse_failure ValueError = Reply InvalidAmount" by (simp add: parse_failure_def)
  ultimately show ?thesis by simp
qed

section \<open>Validation of a creation request\<close>

lemma open_ticket_outcome:
  "fst (open_ticket existing_roles created w_configs w_tickets form intr it v q b s) =
     (case created of None \<Rightarrow> Raised PlatformError | Some ch \<Rightarrow> Reply (TicketCreated ch))"
  by (simp add: open_ticket_def Let_def split: option.split)

text \<open>
  Claim C2. For a creation request whose amounts parse and whose item is found with a
  positive value, and with a positive quantity, the request is rejected for being below the
  minimum worth if and only if value times quantity is less than 10000000; from 10000000 on
  the check passes and the answer is another one.
\<close>

theorem minimum_worth_check:
  assumes "parse_amount (strip (quantity_input form)) = Inr q"
    and "parse_amount (strip (starting_bid_input form)) = Inr b"
    and "fuzzy_search_item sc (strip (item_name_input form)) (get_cached_items s) 65 = Inr (Some it)"
    and "item_value it = Some v" and "0 < v" and "0 < q"
  shows "fst (on_submit sc existing_roles created w_configs w_tickets form intr s)
           = Reply BelowMinimumWorth \<longleftrightarrow> v * q < 10000000"
  using assms
  by (auto simp: on_submit_def Let_def open_ticket_outcome split: sum.split option.split)

lemma find_blue_gem:
  "fuzzy_search_item exact_match (strip ''Blue Gem'') (get_cached_items stocked_state) 65 = Inr (Some blue_gem)"
  by code_simp

lemma find_pebble:
  "fuzzy_search_item exact_match (strip ''Pebble'') (get_cached_items stocked_state) 65 = Inr (Some pebble)"
  by code_simp

lemma parse_1: "parse_amount (strip ''1'') = Inr 1" by code_simp
lemma parse_3: "parse_amount (strip ''3'') = Inr 3" by code_simp
lemma parse_4m: "parse_amount (strip ''4m'') = Inr 4000000" by code_simp
lemma parse_minus_5m: "parse_amount (strip ''-5m'') = Inr (- 5000000)" by code_simp
lemma parse_8e15: "parse_amount (strip ''8000000000000003'') = Inr 8000000000000003" by code_simp
lemma parse_24e14: "parse_amount (strip ''2400000000000001'') = Inr 2400000000000001" by code_simp

text \<open>
  The scenario of one Blue Gem: the total of 5000000 is below the minimum, and the request
  is rejected.
\<close>

theorem minimum_worth_check_witness:
  "parse_amount (strip (quantity_input (request ''Blue Gem'' ''1'' ''4m''))) = Inr 1 \<and>
   parse_amount (strip (starting_bid_input (request ''Blue Gem'' ''1'' ''4m''))) = Inr 4000000 \<and>
   fuzzy_search_item exact_match (strip (item_name_input (request ''Blue Gem'' ''1'' ''4m'')))
     (get_cached_items stocked_state) 65 = Inr (Some blue_gem) \<and>
   item_value blue_gem = Some 5000000 \<and> (0::int) < 5000000 \<and> (0::int) < 1 \<and>
   fst (submit (request ''Blue Gem'' ''1'' ''4m'') stocked_state) = Reply BelowMinimumWorth"
proof -
  have h1: "parse_amount (strip (quantity_input (request ''Blue Gem'' ''1'' ''4m''))) = Inr 1"
    by (simp add: request_def parse_1)
  have h2: "parse_amount (strip (starting_bid_input (request ''Blue Gem'' ''1'' ''4m''))) = Inr 4000000"
    by (simp add: request_def parse_4m)
  have h3: "fuzzy_search_item exact_match (strip (item_name_input (request ''Blue Gem'' ''1'' ''4m'')))
     (get_cached_items stocked_state) 65 = Inr (Some blue_gem)"
    by (simp add: request_def find_blue_gem)
  have h4: "item_value blue_gem = Some 5000000" by (simp add: blue_gem_def)
  have h5: "(0::int) < 5000000" and h6: "(0::int) < 1" by simp_all
  from minimum_worth_check [OF h1 h2 h3 h4 h5 h6, where existing_roles = "[]" and created = "Some 7"
      and w_configs = Written and w_tickets = Written and intr = "in_guild 3 alice"]
  have "fst (submit (request ''Blue Gem'' ''1'' ''4m'') stocked_state) = Reply BelowMinimumWorth"
    by (simp add: submit_def)
  with h1 h2 h3 h4 show ?thesis by simp
qed

lemma on_submit_checked:
  assumes "parse_amount (strip (quantity_input form)) = Inr q"
    and "parse_amount (strip (starting_bid_input form)) = Inr b"
    and "fuzzy_search_item sc (strip (item_name_input form)) (get_cached_items s) 65 = Inr (Some it)"
    and "item_value it = Some v" and "0 < v" and "10000000 \<le> v * q"
    and "max_allowed (v * q) = Inr limit" and "b \<le> limit"
  shows "on_submit sc existing_roles created w_configs w_tickets form intr s
           = open_ticket existing_roles created w_configs w_tickets form intr it v q b s"
  using assms by (simp add: on_submit_def Let_def)

text \<open>
  Claim C1. The limit is \<^verbatim>\<open>int(total_worth * 0.30)\<close>, a float product: for a total of
  8000000000000003 it is 2400000000000001, one more than three tenths of the total rounded
  down. A request for 8000000000000003 Pebbles with a starting bid of 2400000000000001 is
  accepted although the bid exceeds 2400000000000000, the floor of 30 percent.
\<close>

theorem bid_above_ratio_accepted:
  "max_allowed (1 * 8000000000000003) = Inr 2400000000000001 \<and>
   3 * (1 * 8000000000000003) div 10 = (2400000000000000 :: int) \<and>
   fst (submit (request ''Pebble'' ''8000000000000003'' ''2400000000000001'') stocked_state)
     = Reply (TicketCreated 7)"
proof -
  have "submit (request ''Pebble'' ''8000000000000003'' ''2400000000000001'') stocked_state
        = open_ticket [] (Some 7) Written Written
            (request ''Pebble'' ''8000000000000003'' ''2400000000000001'') (in_guild 3 alice)
            pebble 1 8000000000000003 2400000000000001 stocked_state"
    unfolding submit_def
    by (rule on_submit_checked [where limit = 2400000000000001])
       (simp_all add: request_def parse_8e15 parse_24e14 find_pebble pebble_def max_allowed_8e15)
  then show ?thesis by (simp add: open_ticket_outcome max_allowed_8e15)
qed

section \<open>The bid ratio as an invariant of the store\<close>

lemma max_allowed_15m: "max_allowed 15000000 = Inr 4500000"
  using max_allowed_exact [of 15000000] by simp

lemma tickets_save_configs [simp]: "auction_tickets (save_configs w s) = auction_tickets s"
  by (simp add: save_configs_def)

lemma tickets_save_tickets [simp]: "auction_tickets (save_tickets w s) = auction_tickets s"
  by (simp add: save_tickets_def)

lemma tickets_save_items [simp]: "auction_tickets (save_items w s) = auction_tickets s"
  by (simp add: save_items_def)

lemma tickets_set_permissions [simp]:
  "auction_tickets (set_permissions ch tgt v s) = auction_tickets s"
  by (simp add: set_permissions_def split: option.split)

lemma tickets_rename_channel [simp]:
  "auction_tickets (rename_channel ch n s) = auction_tickets s"
  by (simp add: rename_channel_def split: option.split)

lemma tickets_delete_channel [simp]: "auction_tickets (delete_channel ch s) = auction_tickets s"
  by (simp add: delete_channel_def)

lemma tickets_schedule [simp]:
  "auction_tickets (schedule_channel_deletion ch d s) = auction_tickets s"
  by (simp add: schedule_channel_deletion_def)

lemma tickets_open_ticket:
  "auction_tickets (snd (open_ticket existing_roles created w_configs w_tickets form intr it v q b s)) =
     (case created of
        None \<Rightarrow> auction_tickets s
      | Some ch \<Rightarrow> (auction_tickets s)(ch \<mapsto>
          \<lparr>ticket_id = (case ticket_counter (heap s (guild_config form)) of None \<Rightarrow> 0 | Some n \<Rightarrow> n) + 1,
           guild_id = in_guild_id intr, user_id = member_id (user intr), item_name = name it,
           attachment = item_attachment it, value_each = v, quantity = q, starting_bid = b\<rparr>))"
  by (simp add: open_ticket_def Let_def split: option.split)

text \<open>
  Claim C3, the lower bound. A request for three Blue Gems with the bid \<^verbatim>\<open>-5m\<close> is accepted,
  and the stored ticket has the starting bid -5000000: no check keeps the bid from being
  negative.
\<close>

theorem negative_bid_accepted:
  "fst (submit (request ''Blue Gem'' ''3'' ''-5m'') stocked_state) = Reply (TicketCreated 7) \<and>
   map_option starting_bid
     (auction_tickets (snd (submit (request ''Blue Gem'' ''3'' ''-5m'') stocked_state)) 7)
     = Some (- 5000000) \<and>
   \<not> (0 \<le> (- 5000000 :: int))"
proof -
  have "submit (request ''Blue Gem'' ''3'' ''-5m'') stocked_state
        = open_ticket [] (Some 7) Written Written (request ''Blue Gem'' ''3'' ''-5m'')
            (in_guild 3 alice) blue_gem 5000000 3 (- 5000000) stocked_state"
    unfolding submit_def
    by (rule on_submit_checked [where limit = 4500000])
       (simp_all add: request_def parse_3 parse_minus_5m find_blue_gem blue_gem_def max_allowed_15m)
  then show ?thesis by (simp add: open_ticket_outcome tickets_open_ticket)
qed

lemma within_limit_accepted:
  assumes "max_allowed (v * q) = Inr limit" "\<not> limit < b"
  shows "within_limit (t\<lparr>value_each := v, quantity := q, starting_bid := b\<rparr>)"
  using assms max_allowed_exact [of "v * q"]
  by (auto simp: within_limit_def Let_def)

lemma ran_upd_subset: "ran (m(k \<mapsto> v)) \<subseteq> insert v (ran m)"
  by (auto simp: ran_def)

lemma ran_del_subset: "ran (m(k := None)) \<subseteq> ran m"
  by (auto simp: ran_def)

lemma limit_on_submit:
  assumes "tickets_within_limit s"
  shows "tickets_within_limit (snd (on_submit sc existing_roles created w_configs w_tickets form intr s))"
proof -
  have new: "within_limit
      \<lparr>ticket_id = i, guild_id = g, user_id = u, item_name = n, attachment = a, value_each = v,
       quantity = q, starting_bid = b\<rparr>"
    if "max_allowed (v * q) = Inr limit" "\<not> limit < b" for i g u n a v q b limit
    using that max_allowed_exact [of "v * q"] by (auto simp: within_limit_def Let_def)
  show ?thesis
    using assms ran_upd_subset
    by (fastforce simp: on_submit_def Let_def tickets_within_limit_def tickets_open_ticket
        intro: new split: sum.split option.split)
qed

lemma limit_edit_bid:
  assumes "tickets_within_limit s"
  shows "tickets_within_limit (snd (edit_bid w new_bid intr s))"
proof -
  have new: "within_limit (t\<lparr>starting_bid := b\<rparr>)"
    if "max_allowed (value_each t * quantity t) = Inr limit" "\<not> limit < b" for t b limit
    using that max_allowed_exact [of "value_each t * quantity t"]
    by (auto simp: within_limit_def Let_def)
  show ?thesis
    using assms ran_upd_subset
    by (fastforce simp: edit_bid_def Let_def tickets_within_limit_def
        intro: new split: sum.split option.split)
qed

lemma limit_close_auction:
  assumes "tickets_within_limit s"
  shows "tickets_within_limit (snd (close_auction owner_member perms_ok rename_ok w intr s))"
  using assms ran_del_subset
  by (fastforce simp: close_auction_def Let_def tickets_within_limit_def split: option.split)

lemma limit_cancel_button:
  assumes "tickets_within_limit s"
  shows "tickets_within_limit (snd (cancel_button w delete_ok intr s))"
  using assms ran_del_subset
  by (fastforce simp: cancel_button_def Let_def tickets_within_limit_def split: option.split)

lemma tickets_create_auction [simp]:
  "auction_tickets (snd (snd (create_auction intr s))) = auction_tickets s"
  by (simp add: create_auction_def get_config_def split: option.split)

lemma tickets_update_items_cache [simp]:
  "auction_tickets (update_items_cache resp w s) = auction_tickets s"
  by (simp add: update_items_cache_def Let_def)

lemma tickets_elapse [simp]: "auction_tickets (elapse delete_ok d s) = auction_tickets s"
  by (simp add: elapse_def)

lemma limit_step:
  assumes "tickets_within_limit s"
  shows "tickets_within_limit (step sc s ev)"
proof (cases ev)
  case (Submit existing_roles created w_configs w_tickets form intr)
  with assms show ?thesis by (simp add: limit_on_submit)
next
  case (EditBid w new_bid intr)
  with assms show ?thesis by (simp add: limit_edit_bid)
next
  case (CloseAuction owner_member perms_ok rename_ok w intr)
  with assms show ?thesis by (simp add: limit_close_auction)
next
  case (CloseButton owner_member perms_ok rename_ok w intr)
  with assms show ?thesis by (simp add: limit_close_auction close_button_def)
next
  case (CancelButton w delete_ok intr)
  with assms show ?thesis by (simp add: limit_cancel_button)
qed (use assms in \<open>simp_all add: tickets_within_limit_def\<close>)

text \<open>
  Claim C3, as amended. In every state the cog reaches from a store whose tickets respect
  the ratio, every ticket with a total from 0 up to \<open>2^51\<close> has a starting bid of at most
  three tenths of its total, rounded down: the check at creation and the check at every bid
  edit keep it so, and closing, cancelling, cache refreshes and the passing of time do not
  touch the bids. No lower bound on the bid is part of the invariant.
\<close>

theorem bid_limit_invariant:
  assumes "tickets_within_limit s"
  shows "tickets_within_limit (run sc s evs)"
  using assms unfolding run_def
  by (induction evs arbitrary: s) (simp_all add: limit_step)

lemma parse_4500000: "parse_amount (strip ''4500000'') = Inr 4500000" by code_simp

lemma submitted_ticket:
  "auction_tickets (snd (submit (request ''Blue Gem'' ''3'' ''4m'') stocked_state)) 7 =
     Some \<lparr>ticket_id = 1, guild_id = 1, user_id = 11, item_name = ''Blue Gem'', attachment = None,
           value_each = 5000000, quantity = 3, starting_bid = 4000000\<rparr>"
proof -
  have "submit (request ''Blue Gem'' ''3'' ''4m'') stocked_state
        = open_ticket [] (Some 7) Written Written (request ''Blue Gem'' ''3'' ''4m'')
            (in_guild 3 alice) blue_gem 5000000 3 4000000 stocked_state"
    unfolding submit_def
    by (rule on_submit_checked [where limit = 4500000])
       (simp_all add: request_def parse_3 parse_4m find_blue_gem blue_gem_def max_allowed_15m)
  then show ?thesis
    by (simp add: tickets_open_ticket request_def stocked_state_def empty_state_def
        default_config_def in_guild_def alice_def blue_gem_def)
qed

lemma edit_bid_accepted:
  assumes "auction_tickets s (in_channel_id intr) = Some t"
    and "is_owner t (user intr) \<or> is_staff (user intr)"
    and "parse_amount (strip new_bid) = Inr b"
    and "max_allowed (value_each t * quantity t) = Inr limit" and "b \<le> limit"
  shows "edit_bid w new_bid intr s =
           (Reply BidUpdated,
            save_tickets w (s\<lparr>auction_tickets := (auction_tickets s)(in_channel_id intr \<mapsto>
                                 t\<lparr>starting_bid := b\<rparr>)\<rparr>))"
  using assms by (simp add: edit_bid_def Let_def)

text \<open>
  A run from the stocked state: three Blue Gems with a bid of 4000000, then the bid is edited
  to 4500000, exactly three tenths of the total of 15000000, which is accepted.
\<close>

theorem bid_limit_invariant_witness:
  "tickets_within_limit stocked_state \<and>
   tickets_within_limit
     (run exact_match stocked_state
        [Submit [] (Some 7) Written Written (request ''Blue Gem'' ''3'' ''4m'') (in_guild 3 alice),
         EditBid Written ''4500000'' (in_guild 7 alice)]) \<and>
   map_option starting_bid
     (auction_tickets
        (run exact_match stocked_state
           [Submit [] (Some 7) Written Written (request ''Blue Gem'' ''3'' ''4m'') (in_guild 3 alice),
            EditBid Written ''4500000'' (in_guild 7 alice)]) 7) = Some 4500000"
proof -
  define s1 where "s1 = snd (submit (request ''Blue Gem'' ''3'' ''4m'') stocked_state)"
  define t where "t = \<lparr>ticket_id = 1, guild_id = 1, user_id = 11, item_name = ''Blue Gem'',
    attachment = None, value_each = 5000000, quantity = 3, starting_bid = 4000000\<rparr>"
  have h: "tickets_within_limit stocked_state"
    by (simp add: tickets_within_limit_def stocked_state_def empty_state_def)
  have r: "run exact_match stocked_state
        [Submit [] (Some 7) Written Written (request ''Blue Gem'' ''3'' ''4m'') (in_guild 3 alice),
         EditBid Written ''4500000'' (in_guild 7 alice)]
        = snd (edit_bid Written ''4500000'' (in_guild 7 alice) s1)"
    by (simp add: run_def s1_def submit_def)
  have t: "auction_tickets s1 (in_channel_id (in_guild 7 alice)) = Some t"
    using submitted_ticket by (simp add: s1_def t_def in_guild_def)
  have "edit_bid Written ''4500000'' (in_guild 7 alice) s1 =
          (Reply BidUpdated,
           save_tickets Written (s1\<lparr>auction_tickets := (auction_tickets s1)
              (in_channel_id (in_guild 7 alice) \<mapsto> t\<lparr>starting_bid := 4500000\<rparr>)\<rparr>))"
    by (rule edit_bid_accepted [OF t, where limit = 4500000])
       (simp_all add: t_def in_guild_def alice_def is_owner_def parse_4500000 max_allowed_15m)
  then have "map_option starting_bid
     (auction_tickets (snd (edit_bid Written ''4500000'' (in_guild 7 alice) s1)) 7) = Some 4500000"
    by (simp add: in_guild_def)
  moreover have "tickets_within_limit
     (run exact_match stocked_state
        [Submit [] (Some 7) Written Written (request ''Blue Gem'' ''3'' ''4m'') (in_guild 3 alice),
         EditBid Written ''4500000'' (in_guild 7 alice)])"
    by (rule bid_limit_invariant [OF h])
  ultimately show ?thesis using h by (simp add: r)
qed

section \<open>The item cache\<close>

subsection \<open>Fuzzy search\<close>

lemma extract_scan_first_best:
  assumes "cs = drop n names" and "n \<le> length names"
    and "ib < n" and "\<forall>j < n. f (names ! j) \<le> f (names ! ib)"
    and "\<forall>j < ib. f (names ! j) < f (names ! ib)"
  shows "\<exists>k. extract_scan f cs n (names ! ib, f (names ! ib), ib) = (names ! k, f (names ! k), k)
              \<and> first_best f names k"
  using assms
proof (induction cs arbitrary: n ib)
  case Nil
  then have "n = length names" by simp
  with Nil show ?case by (auto simp: first_best_def)
next
  case (Cons c cs)
  from Cons.prems(1) have n: "n < length names"
    by (metis drop_all leI list.distinct(1))
  with Cons.prems(1) have c: "c = names ! n" and cs: "cs = drop (Suc n) names"
    by (simp_all add: Cons_nth_drop_Suc [symmetric])
  show ?case
  proof (cases "f (names ! ib) < f c")
    case True
    have "\<exists>k. extract_scan f cs (Suc n) (names ! n, f (names ! n), n) = (names ! k, f (names ! k), k)
              \<and> first_best f names k"
    proof (rule Cons.IH [OF cs])
      show "Suc n \<le> length names" using n by simp
      show "n < Suc n" by simp
      show "\<forall>j < Suc n. f (names ! j) \<le> f (names ! n)"
        using True Cons.prems(4) c by (auto simp: less_Suc_eq intro: order_trans less_imp_le)
      show "\<forall>j < n. f (names ! j) < f (names ! n)"
        using True Cons.prems(4) c by (auto intro: le_less_trans)
    qed
    with True c show ?thesis by simp
  next
    case False
    have "\<exists>k. extract_scan f cs (Suc n) (names ! ib, f (names ! ib), ib) = (names ! k, f (names ! k), k)
              \<and> first_best f names k"
    proof (rule Cons.IH [OF cs])
      show "Suc n \<le> length names" using n by simp
      show "ib < Suc n" using Cons.prems(3) by simp
      show "\<forall>j < Suc n. f (names ! j) \<le> f (names ! ib)"
        using False Cons.prems(4) c by (auto simp: less_Suc_eq)
      show "\<forall>j < ib. f (names ! j) < f (names ! ib)" using Cons.prems(5) .
    qed
    with False c show ?thesis by simp
  qed
qed

lemma extractOne_first_best:
  "\<exists>k. extractOne sc query c cs = ((c # cs) ! k, sc query ((c # cs) ! k), k)
       \<and> first_best (sc query) (c # cs) k"
proof -
  have "\<exists>k. extract_scan (sc query) cs 1 ((c # cs) ! 0, sc query ((c # cs) ! 0), 0)
            = ((c # cs) ! k, sc query ((c # cs) ! k), k) \<and> first_best (sc query) (c # cs) k"
    by (rule extract_scan_first_best) auto
  then show ?thesis by (simp add: extractOne_def)
qed

lemma first_best_unique:
  assumes "first_best f names i" "first_best f names k"
  shows "i = k"
proof (rule ccontr)
  assume "i \<noteq> k"
  then consider "i < k" | "k < i" by linarith
  then show False
  proof cases
    case 1
    with assms have "f (names ! i) < f (names ! k)" "f (names ! k) \<le> f (names ! i)"
      by (auto simp: first_best_def)
    then show False by simp
  next
    case 2
    with assms have "f (names ! k) < f (names ! i)" "f (names ! i) \<le> f (names ! k)"
      by (auto simp: first_best_def)
    then show False by simp
  qed
qed

lemma read_items_map_Item: "read_items (map Item items) = Inr items"
  by (induction items) simp_all

lemma fuzzy_search_item_raises:
  "fuzzy_search_item sc query items threshold = Inl e \<longleftrightarrow> read_items items = Inl e"
  by (cases items)
     (auto simp: fuzzy_search_item_def Let_def split: sum.splits list.splits prod.splits)

lemma fuzzy_search_item_cons:
  assumes "extractOne sc query (name it) (map name rest) = (nm, score, k)"
  shows "fuzzy_search_item sc query (map Item (it # rest)) threshold =
           Inr (if nm \<noteq> [] \<and> threshold \<le> score then Some ((it # rest) ! k) else None)"
  using assms read_items_map_Item [of "it # rest"]
  by (simp add: fuzzy_search_item_def)

text \<open>
  Claim C9. On an empty snapshot the search finds nothing, whatever the query, and raises
  nothing. On a non-empty snapshot of items there is exactly one best match, the first item
  whose name has the highest score, and the search returns that item when its score reaches
  the threshold and nothing otherwise. The scorer is taken to give an empty name a score
  below the threshold, as \<^verbatim>\<open>fuzz.WRatio\<close> does (it scores an empty string 0, and the
  threshold is 65).
\<close>

theorem fuzzy_search_item_best_match:
  assumes "sc query [] < threshold"
  shows "fuzzy_search_item sc query [] threshold = Inr None \<and>
         (items \<noteq> [] \<longrightarrow>
            (\<exists>i. first_best (sc query) (map name items) i \<and>
                 (\<forall>k. first_best (sc query) (map name items) k \<longrightarrow> k = i) \<and>
                 fuzzy_search_item sc query (map Item items) threshold =
                   Inr (if threshold \<le> sc query (name (items ! i)) then Some (items ! i) else None)))"
proof (intro conjI impI)
  show "fuzzy_search_item sc query [] threshold = Inr None"
    by (simp add: fuzzy_search_item_def)
next
  assume "items \<noteq> []"
  then obtain it rest where items: "items = it # rest" by (cases items) auto
  define names where "names = map name items"
  have names: "names = name it # map name rest" by (simp add: names_def items)
  from extractOne_first_best [of sc query "name it" "map name rest"]
  obtain k where k: "extractOne sc query (name it) (map name rest)
      = (names ! k, sc query (names ! k), k)"
    and fb: "first_best (sc query) names k"
    unfolding names by blast
  from fb have kl: "k < length items" by (simp add: first_best_def names_def)
  then have nm: "names ! k = name (items ! k)" by (simp add: names_def)
  have f: "fuzzy_search_item sc query (map Item items) threshold =
          Inr (if names ! k \<noteq> [] \<and> threshold \<le> sc query (names ! k) then Some (items ! k) else None)"
    unfolding items by (rule fuzzy_search_item_cons [OF k])
  have "names ! k = [] \<Longrightarrow> \<not> threshold \<le> sc query (names ! k)"
    using assms by simp
  with f have res: "fuzzy_search_item sc query (map Item items) threshold =
          Inr (if threshold \<le> sc query (name (items ! k)) then Some (items ! k) else None)"
    unfolding nm by presburger
  have uniq: "\<forall>j. first_best (sc query) names j \<longrightarrow> j = k"
    using fb first_best_unique by blast
  show "\<exists>i. first_best (sc query) (map name items) i \<and>
       (\<forall>k. first_best (sc query) (map name items) k \<longrightarrow> k = i) \<and>
       fuzzy_search_item sc query (map Item items) threshold =
         Inr (if threshold \<le> sc query (name (items ! i)) then Some (items ! i) else None)"
    unfolding names_def [symmetric]
    using fb uniq res by blast
qed

text \<open>The query Blue Gem on the two-item catalog: index 0 is the best match and is found.\<close>

theorem fuzzy_search_item_best_match_witness:
  "exact_match ''Blue Gem'' [] < 65 \<and>
   fuzzy_search_item exact_match ''Blue Gem'' [] 65 = Inr None \<and>
   first_best (exact_match ''Blue Gem'') (map name [blue_gem, pebble]) 0 \<and>
   fuzzy_search_item exact_match ''Blue Gem'' (map Item [blue_gem, pebble]) 65 = Inr (Some blue_gem)"
proof -
  have h: "exact_match ''Blue Gem'' [] < 65" by (simp add: exact_match_def)
  have fb: "first_best (exact_match ''Blue Gem'') (map name [blue_gem, pebble]) 0"
    by (simp add: first_best_def exact_match_def blue_gem_def pebble_def less_Suc_eq)
  from fuzzy_search_item_best_match [where sc = exact_match and query = "''Blue Gem''"
      and threshold = 65 and items = "[blue_gem, pebble]", OF h]
  obtain i where e: "fuzzy_search_item exact_match ''Blue Gem'' [] 65 = Inr None"
    and u: "\<forall>k. first_best (exact_match ''Blue Gem'') (map name [blue_gem, pebble]) k \<longrightarrow> k = i"
    and r: "fuzzy_search_item exact_match ''Blue Gem'' (map Item [blue_gem, pebble]) 65 =
       Inr (if 65 \<le> exact_match ''Blue Gem'' (name ([blue_gem, pebble] ! i))
            then Some ([blue_gem, pebble] ! i) else None)"
    by auto
  from u fb have "i = 0" by auto
  with r have "fuzzy_search_item exact_match ''Blue Gem'' (map Item [blue_gem, pebble]) 65
      = Inr (Some blue_gem)"
    by (simp add: exact_match_def blue_gem_def)
  with h e fb show ?thesis by simp
qed

subsection \<open>Refreshing the cache\<close>

lemma fetch_failed_cases:
  "fetch_items_from_api RequestFailed = []"
  "fetch_items_from_api (Payload False body) = []"
  "fetch_items_from_api (Payload ok None) = []"
  "fetch_items_from_api (Payload ok (Some [])) = []"
  by (simp_all add: fetch_items_from_api_def split: option.split)

lemma fetch_cases:
  "resp = RequestFailed \<or> (\<exists>body. resp = Payload False body) \<or> (\<exists>ok. resp = Payload ok None)
   \<or> (\<exists>ok. resp = Payload ok (Some [])) \<or> (\<exists>items. items \<noteq> [] \<and> resp = Payload True (Some items))"
proof (cases resp)
  case RequestFailed
  then show ?thesis by simp
next
  case (Payload ok body)
  then show ?thesis by (cases ok; cases body) auto
qed

lemma find_blue_gem_stocked:
  "fuzzy_search_item exact_match ''Blue Gem'' (get_cached_items stocked_state) 65
     = Inr (Some blue_gem)"
  by code_simp

text \<open>
  Claim C5, the malformed payload. A payload that says success and whose body is the list of
  one number is malformed, yet the refresh takes it: the snapshot of the stocked state is
  replaced by that list, and the search for Blue Gem, which found the item before, raises
  \<^verbatim>\<open>TypeError\<close> after.
\<close>

theorem malformed_body_replaces_snapshot:
  "get_cached_items (update_items_cache (Payload True (Some [NotAnObject])) Written stocked_state)
     = [NotAnObject] \<and>
   get_cached_items stocked_state = [Item blue_gem, Item pebble] \<and>
   fuzzy_search_item exact_match ''Blue Gem'' (get_cached_items stocked_state) 65
     = Inr (Some blue_gem) \<and>
   fuzzy_search_item exact_match ''Blue Gem''
     (get_cached_items (update_items_cache (Payload True (Some [NotAnObject])) Written stocked_state))
     65 = Inl TypeError"
proof -
  have a: "get_cached_items
      (update_items_cache (Payload True (Some [NotAnObject])) Written stocked_state) = [NotAnObject]"
    by (simp add: update_items_cache_def fetch_items_from_api_def save_items_def
        get_cached_items_def Let_def)
  have b: "get_cached_items stocked_state = [Item blue_gem, Item pebble]"
    by (simp add: get_cached_items_def stocked_state_def)
  have c: "fuzzy_search_item exact_match ''Blue Gem'' [NotAnObject] 65 = Inl TypeError"
    by (simp add: fuzzy_search_item_def)
  from a b c find_blue_gem_stocked show ?thesis by simp
qed

text \<open>
  Claim C5, as amended. A refresh fails when the request or its decoding raises, when the
  payload does not say success, when its body is not a list, or when the list is empty; it
  then returns the state it was given, so every search gives the same result after it as
  before. A payload that says success with a non-empty list succeeds, whatever the elements
  of the list are: the list becomes the snapshot and is written to the items file, from which
  a later start reads it back. Every response is of one of these kinds, and the refresh is a
  total function of the state: no exception leaves it.
\<close>

theorem refresh_keeps_or_replaces:
  "(resp \<in> {RequestFailed, Payload False body, Payload ok None, Payload ok (Some [])} \<longrightarrow>
      update_items_cache resp w s = s \<and>
      fuzzy_search_item sc query (get_cached_items (update_items_cache resp w s)) threshold
        = fuzzy_search_item sc query (get_cached_items s) threshold) \<and>
   (items \<noteq> [] \<longrightarrow>
      get_cached_items (update_items_cache (Payload True (Some items)) w s) = items \<and>
      items_file (update_items_cache (Payload True (Some items)) w s)
        = save_json w items (items_file s) \<and>
      load_json (items_file (update_items_cache (Payload True (Some items)) Written s)) [] = items) \<and>
   (resp' = RequestFailed \<or> (\<exists>b. resp' = Payload False b) \<or> (\<exists>k. resp' = Payload k None)
    \<or> (\<exists>k. resp' = Payload k (Some [])) \<or> (\<exists>l. l \<noteq> [] \<and> resp' = Payload True (Some l)))"
proof (intro conjI impI)
  assume f: "resp \<in> {RequestFailed, Payload False body, Payload ok None, Payload ok (Some [])}"
  then have "fetch_items_from_api resp = []" using fetch_failed_cases by auto
  then show u: "update_items_cache resp w s = s" by (simp add: update_items_cache_def)
  show "fuzzy_search_item sc query (get_cached_items (update_items_cache resp w s)) threshold
        = fuzzy_search_item sc query (get_cached_items s) threshold"
    by (simp only: u)
next
  assume i: "items \<noteq> []"
  then show "get_cached_items (update_items_cache (Payload True (Some items)) w s) = items"
    by (simp add: update_items_cache_def fetch_items_from_api_def save_items_def get_cached_items_def)
  from i show "items_file (update_items_cache (Payload True (Some items)) w s)
        = save_json w items (items_file s)"
    by (simp add: update_items_cache_def fetch_items_from_api_def save_items_def)
  from i show "load_json (items_file (update_items_cache (Payload True (Some items)) Written s)) [] = items"
    by (simp add: update_items_cache_def fetch_items_from_api_def save_items_def save_json_def
        load_json_def)
next
  show "resp' = RequestFailed \<or> (\<exists>b. resp' = Payload False b) \<or> (\<exists>k. resp' = Payload k None)
    \<or> (\<exists>k. resp' = Payload k (Some [])) \<or> (\<exists>l. l \<noteq> [] \<and> resp' = Payload True (Some l))"
    by (rule fetch_cases)
qed

text \<open>
  A failed request leaves the stocked state alone; a payload of one Pebble and one object
  without a name replaces the snapshot, malformed element and all.
\<close>

theorem refresh_keeps_or_replaces_witness:
  "RequestFailed \<in> {RequestFailed, Payload False None, Payload True None, Payload True (Some [])} \<and>
   update_items_cache RequestFailed Written stocked_state = stocked_state \<and>
   fuzzy_search_item exact_match ''Blue Gem''
     (get_cached_items (update_items_cache RequestFailed Written stocked_state)) 65
     = Inr (Some blue_gem) \<and>
   [Item pebble, NoName] \<noteq> [] \<and>
   get_cached_items
     (update_items_cache (Payload True (Some [Item pebble, NoName])) Written stocked_state)
     = [Item pebble, NoName] \<and>
   items_file
     (update_items_cache (Payload True (Some [Item pebble, NoName])) Written stocked_state)
     = Some [Item pebble, NoName]"
proof -
  have h1: "RequestFailed \<in> {RequestFailed, Payload False None, Payload True None, Payload True (Some [])}"
    by simp
  have h2: "[Item pebble, NoName] \<noteq> []" by simp
  from refresh_keeps_or_replaces [of RequestFailed None True Written stocked_state exact_match
      "''Blue Gem''" 65 "[Item pebble, NoName]" RequestFailed] h1 h2 find_blue_gem_stocked
  show ?thesis by (simp add: save_json_def)
qed

section \<open>Closing a ticket\<close>














section \<open>Authorization\<close>









section \<open>Creation: what a rejected and an accepted request change\<close>

text \<open>
  A rejected request returns the state it was given: no channel, no record, no counter
  changes. An accepted request stores exactly one record, under the new channel, numbered
  one more than the counter of the form's configuration, which then is the guild's.
\<close>

lemma on_submit_rejected_unchanged:
  assumes "fst (on_submit sc existing_roles created w_configs w_tickets form intr s)
             \<in> {Reply InvalidAmount, Reply ItemNotFound, Reply InvalidItemValue,
                Reply BelowMinimumWorth, Reply BidExceedsRatio}"
  shows "snd (on_submit sc existing_roles created w_configs w_tickets form intr s) = s"
  using assms
  by (auto simp: on_submit_def Let_def open_ticket_outcome split: sum.splits option.splits if_splits)

lemma heap_open_ticket:
  "heap (snd (open_ticket existing_roles created w_configs w_tickets form intr it v q b s)) =
     (heap s)(guild_config form := (heap s (guild_config form))
        \<lparr>ticket_counter :=
           Some ((case ticket_counter (heap s (guild_config form)) of None \<Rightarrow> 0 | Some n \<Rightarrow> n) + 1)\<rparr>)"
  by (simp add: open_ticket_def Let_def save_tickets_def save_configs_def split: option.split)

lemma guild_configs_open_ticket:
  "guild_configs (snd (open_ticket existing_roles created w_configs w_tickets form intr it v q b s)) =
     (guild_configs s)(in_guild_id intr \<mapsto> guild_config form)"
  by (simp add: open_ticket_def Let_def save_tickets_def save_configs_def split: option.split)

lemma cached_items_open_ticket:
  "cached_items (snd (open_ticket existing_roles created w_configs w_tickets form intr it v q b s))
     = cached_items s"
  by (simp add: open_ticket_def Let_def save_tickets_def save_configs_def split: option.split)

lemma on_submit_accepted:
  assumes "on_submit sc existing_roles created w_configs w_tickets form intr s
             = (Reply (TicketCreated ch), s')"
  shows "created = Some ch \<and>
         (\<exists>t. auction_tickets s' = (auction_tickets s)(ch \<mapsto> t) \<and>
              ticket_id t = (case ticket_counter (heap s (guild_config form)) of
                               None \<Rightarrow> 0 | Some n \<Rightarrow> n) + 1 \<and>
              guild_counter s' (in_guild_id intr) = ticket_id t)"
proof -
  from assms obtain it v q b where
    o: "open_ticket existing_roles created w_configs w_tickets form intr it v q b s
          = (Reply (TicketCreated ch), s')"
    by (auto simp: on_submit_def Let_def parse_failure_def
        split: sum.splits option.splits if_splits exn.splits)
  then have c: "created = Some ch"
    using open_ticket_outcome [of existing_roles created w_configs w_tickets form intr it v q b s]
    by (auto split: option.splits)
  from o have s': "s' = snd (open_ticket existing_roles created w_configs w_tickets form intr it v q b s)"
    by simp
  show ?thesis
    unfolding s'
    by (simp add: c tickets_open_ticket guild_counter_def heap_open_ticket guild_configs_open_ticket)
       (rule exI, rule conjI, rule refl, simp)
qed

lemma on_submit_accepted_same_config:
  assumes "on_submit sc existing_roles created w_configs w_tickets form intr s
             = (Reply (TicketCreated ch), s')"
    and "guild_configs s (in_guild_id intr) = Some (guild_config form)"
  shows "\<exists>t. auction_tickets s' ch = Some t \<and> ticket_id t = guild_counter s (in_guild_id intr) + 1"
  using on_submit_accepted [OF assms(1)] assms(2)
  by (auto simp: guild_counter_def)


lemma create_auction_admin:
  assumes "administrator (user intr)" and "guild_configs s (in_guild_id intr) = None"
  shows "create_auction intr s =
           (Reply ModalSent, Some (next_addr s),
            s\<lparr>heap := (heap s)(next_addr s := default_config), next_addr := Suc (next_addr s)\<rparr>)"
  using assms by (simp add: create_auction_def get_config_def)

lemma on_submit_blue_gem:
  assumes "cached_items s = [Item blue_gem, Item pebble]"
    and "item_name_input form = ''Blue Gem''" and "quantity_input form = ''3''"
    and "starting_bid_input form = ''4m''"
  shows "on_submit exact_match existing_roles created w_configs w_tickets form intr s
           = open_ticket existing_roles created w_configs w_tickets form intr blue_gem 5000000 3
               4000000 s"
proof -
  have "get_cached_items s = get_cached_items stocked_state"
    by (simp add: get_cached_items_def assms(1) stocked_state_def)
  then show ?thesis
    by (intro on_submit_checked [where limit = 4500000])
       (simp_all add: assms(2-4) parse_3 parse_4m find_blue_gem blue_gem_def max_allowed_15m)
qed

text \<open>
  Claim C4, the ticket number. A form counts on the configuration dictionary it was built
  with. In a guild without a stored configuration every opened form gets a dictionary of
  its own: Carol opens two forms, Alice submits the first and gets ticket 1 in channel 7,
  which makes the guild's counter 1; Bob submits the second and gets ticket 1 again, in
  channel 8, not the guild's counter plus one.
\<close>

theorem ticket_id_reused:
  "fst (snd (create_auction (in_guild 3 carol) stocked_state)) = Some 0 \<and>
   fst (snd (create_auction (in_guild 3 carol)
               (run exact_match stocked_state [OpenForm (in_guild 3 carol)]))) = Some 1 \<and>
   fst (on_submit exact_match [] (Some 7) Written Written
          (request ''Blue Gem'' ''3'' ''4m'') (in_guild 3 alice)
          (run exact_match stocked_state
             [OpenForm (in_guild 3 carol), OpenForm (in_guild 3 carol)]))
     = Reply (TicketCreated 7) \<and>
   guild_counter
     (run exact_match stocked_state
        [OpenForm (in_guild 3 carol), OpenForm (in_guild 3 carol),
         Submit [] (Some 7) Written Written (request ''Blue Gem'' ''3'' ''4m'') (in_guild 3 alice)])
     1 = 1 \<and>
   fst (on_submit exact_match [] (Some 8) Written Written
          ((request ''Blue Gem'' ''3'' ''4m'')\<lparr>guild_config := 1\<rparr>) (in_guild 3 bob)
          (run exact_match stocked_state
             [OpenForm (in_guild 3 carol), OpenForm (in_guild 3 carol),
              Submit [] (Some 7) Written Written (request ''Blue Gem'' ''3'' ''4m'')
                (in_guild 3 alice)]))
     = Reply (TicketCreated 8) \<and>
   map_option ticket_id
     (auction_tickets
        (run exact_match stocked_state
           [OpenForm (in_guild 3 carol), OpenForm (in_guild 3 carol),
            Submit [] (Some 7) Written Written (request ''Blue Gem'' ''3'' ''4m'') (in_guild 3 alice),
            Submit [] (Some 8) Written Written
              ((request ''Blue Gem'' ''3'' ''4m'')\<lparr>guild_config := 1\<rparr>) (in_guild 3 bob)])
        7) = Some 1 \<and>
   map_option ticket_id
     (auction_tickets
        (run exact_match stocked_state
           [OpenForm (in_guild 3 carol), OpenForm (in_guild 3 carol),
            Submit [] (Some 7) Written Written (request ''Blue Gem'' ''3'' ''4m'') (in_guild 3 alice),
            Submit [] (Some 8) Written Written
              ((request ''Blue Gem'' ''3'' ''4m'')\<lparr>guild_config := 1\<rparr>) (in_guild 3 bob)])
        8) = Some 1"
proof -
  define form0 where "form0 = request ''Blue Gem'' ''3'' ''4m''"
  define form1 where "form1 = (request ''Blue Gem'' ''3'' ''4m'')\<lparr>guild_config := 1\<rparr>"
  define s1 where "s1 = stocked_state\<lparr>heap := (heap stocked_state)(0 := default_config),
    next_addr := Suc 0\<rparr>"
  define s2 where "s2 = s1\<lparr>heap := (heap s1)(Suc 0 := default_config), next_addr := Suc (Suc 0)\<rparr>"
  define s3 where "s3 = snd (open_ticket [] (Some 7) Written Written form0 (in_guild 3 alice)
    blue_gem 5000000 3 4000000 s2)"
  define s4 where "s4 = snd (open_ticket [] (Some 8) Written Written form1 (in_guild 3 bob)
    blue_gem 5000000 3 4000000 s3)"
  have adm: "administrator (user (in_guild 3 carol))" by (simp add: in_guild_def carol_def)
  have g: "in_guild_id (in_guild 3 u) = 1" for u by (simp add: in_guild_def)
  have c0: "create_auction (in_guild 3 carol) stocked_state = (Reply ModalSent, Some 0, s1)"
    using create_auction_admin [OF adm, of stocked_state]
    by (simp add: s1_def stocked_state_def empty_state_def g)
  have c1: "create_auction (in_guild 3 carol) s1 = (Reply ModalSent, Some 1, s2)"
    using create_auction_admin [OF adm, of s1]
    by (simp add: s2_def s1_def stocked_state_def empty_state_def g)
  have i2: "cached_items s2 = [Item blue_gem, Item pebble]"
    by (simp add: s2_def s1_def stocked_state_def)
  have f0: "item_name_input form0 = ''Blue Gem''" "quantity_input form0 = ''3''"
    "starting_bid_input form0 = ''4m''" "guild_config form0 = 0"
    by (simp_all add: form0_def request_def)
  have f1: "item_name_input form1 = ''Blue Gem''" "quantity_input form1 = ''3''"
    "starting_bid_input form1 = ''4m''" "guild_config form1 = 1"
    by (simp_all add: form1_def request_def)
  have o3: "on_submit exact_match [] (Some 7) Written Written form0 (in_guild 3 alice) s2
      = open_ticket [] (Some 7) Written Written form0 (in_guild 3 alice) blue_gem 5000000 3 4000000 s2"
    by (rule on_submit_blue_gem [OF i2 f0(1-3)])
  have i3: "cached_items s3 = [Item blue_gem, Item pebble]"
    by (simp add: s3_def cached_items_open_ticket i2)
  have o4: "on_submit exact_match [] (Some 8) Written Written form1 (in_guild 3 bob) s3
      = open_ticket [] (Some 8) Written Written form1 (in_guild 3 bob) blue_gem 5000000 3 4000000 s3"
    by (rule on_submit_blue_gem [OF i3 f1(1-3)])
  have r1: "run exact_match stocked_state [OpenForm (in_guild 3 carol)] = s1"
    by (simp add: run_def c0)
  have r2: "run exact_match stocked_state [OpenForm (in_guild 3 carol), OpenForm (in_guild 3 carol)]
      = s2"
    by (simp add: run_def c0 c1)
  have r3: "run exact_match stocked_state
      [OpenForm (in_guild 3 carol), OpenForm (in_guild 3 carol),
       Submit [] (Some 7) Written Written form0 (in_guild 3 alice)] = s3"
    by (simp add: run_def c0 c1 o3 s3_def)
  have r4: "run exact_match stocked_state
      [OpenForm (in_guild 3 carol), OpenForm (in_guild 3 carol),
       Submit [] (Some 7) Written Written form0 (in_guild 3 alice),
       Submit [] (Some 8) Written Written form1 (in_guild 3 bob)] = s4"
    by (simp add: run_def c0 c1 o3 s3_def [symmetric] o4 s4_def [symmetric])
  have h2: "heap s2 0 = default_config" "heap s2 (Suc 0) = default_config"
    by (simp_all add: s2_def s1_def)
  have h3: "ticket_counter (heap s3 0) = Some 1" "ticket_counter (heap s3 (Suc 0)) = Some 0"
    by (simp_all add: s3_def heap_open_ticket f0 h2 default_config_def)
  have g3: "guild_configs s3 (Suc 0) = Some 0"
    by (simp add: s3_def guild_configs_open_ticket g f0)
  have p1: "fst (snd (create_auction (in_guild 3 carol) stocked_state)) = Some 0"
    by (simp add: c0)
  have p2: "fst (snd (create_auction (in_guild 3 carol) s1)) = Some 1"
    by (simp add: c1)
  have p3: "fst (on_submit exact_match [] (Some 7) Written Written form0 (in_guild 3 alice) s2)
      = Reply (TicketCreated 7)"
    by (simp add: o3 open_ticket_outcome)
  have p4: "guild_counter s3 1 = 1"
    by (simp add: guild_counter_def g3 h3)
  have p5: "fst (on_submit exact_match [] (Some 8) Written Written form1 (in_guild 3 bob) s3)
      = Reply (TicketCreated 8)"
    by (simp add: o4 open_ticket_outcome)
  have t3: "map_option ticket_id (auction_tickets s3 7) = Some 1"
    by (simp add: s3_def tickets_open_ticket f0 h2 default_config_def)
  have p6: "map_option ticket_id (auction_tickets s4 7) = Some 1"
    using t3 by (simp add: s4_def tickets_open_ticket)
  have p7: "map_option ticket_id (auction_tickets s4 8) = Some 1"
    by (simp add: s4_def tickets_open_ticket f1 h3)
  from p1 p2 p3 p4 p5 p6 p7 show ?thesis
    unfolding r1 [symmetric] r2 [symmetric] r3 [symmetric] r4 [symmetric] form0_def form1_def
    by (intro conjI)
qed

end
